theory Spec2Isabelle
  imports Main "HOL-Library.Sublist"
begin

section \<open>Data model of lib/index.js\<close>

text \<open>
  Strings are lists of code units below 256. An optional JavaScript property is an
  \<open>option\<close>: \<open>None\<close> is \<open>undefined\<close>. A string-valued property is truthy when it is
  present and not empty.
\<close>

fun truthy :: "string option \<Rightarrow> bool" where
  "truthy None = False"
| "truthy (Some s) = (s \<noteq> [])"

text \<open>The \<open>code\<close> property of a rejected \<open>execFile\<close>: an exit status, a system code
  such as ENOENT, or nothing.\<close>

datatype errcode = ExitCode int | SysCode string | NoCode

text \<open>\<open>ValidationError.details\<close>: the constructor keeps \<open>pkg\<close>, \<open>version\<close> and \<open>diff\<close>.\<close>

record vdetails =
  e_pkg :: "string option"
  e_version :: "string option"
  e_diff :: "string option"

datatype error =
    Error string
  | AssertionError string
  | TypeError string
  | ExecError string errcode string
  | ValidationError string vdetails

text \<open>The details object of a Taint, in the three shapes the code builds.\<close>

datatype tdetails =
    Undefined
  | ShaDetails "string option" string
  | TagDetails "string list"

text \<open>A Taint instance. \<open>ref\<close> is the identity of the object: \<open>===\<close> on objects
  compares identities.\<close>

record taint =
  ref :: nat
  reason :: "string option"
  details :: tdetails

record dist =
  integrity :: "string option"
  shasum :: "string option"
  tarball :: "string option"

record repository =
  rtype :: "string option"
  url :: "string option"

text \<open>The registry record that \<open>npm view -json\<close> prints, after \<open>JSON.parse\<close>.
  \<open>dependencies\<close> is in \<open>for ... in\<close> order.\<close>

record info =
  name :: "string option"
  version :: string
  dist :: "dist option"
  repository :: "repository option"
  gitHead :: "string option"
  dependencies :: "(string \<times> string) list option"

text \<open>The value held in \<open>this._details\<close>: one record, an array of records, or
  \<open>undefined\<close> (an empty array popped).\<close>

datatype details = Single info | Multiple "info list" | Popped

text \<open>The fields of a Validator; \<open>v_loose\<close> is \<open>options.loose\<close>, \<open>v_details\<close> is
  \<open>_details\<close> (\<open>None\<close> is \<open>null\<close>).\<close>

record validator =
  v_package :: string
  v_version :: string
  v_loose :: bool
  v_details :: "details option"

datatype stream_end = End | StreamError error | Aborted

record response =
  statusCode :: int
  body :: "nat list"
  ending :: stream_end

datatype tar_outcome = TarError error | TarExit "int option"

text \<open>What a run does, in order: the calls that leave the process, the lines it
  prints, and the writes to the Map of the script (\<open>results.set(key, value)\<close>).\<close>

datatype event =
    Exec string "string list" "string option"
  | Mkdir string
  | Request string
  | Spawn string "string list" string
  | ConsoleError string
  | ConsoleLog string
  | MemoSet string "taint option"

text \<open>
  The collaborators of the program. Each field answers one kind of call; the answer is
  a function of the call's arguments. \<open>fetch_rejects_first\<close> and
  \<open>package_rejects_first\<close> say which promise of a \<open>Promise.all\<close> rejects first when
  both reject; \<open>overlap\<close> is the number of calls the other branch has issued by then.
\<close>

record world =
  execFile :: "string \<Rightarrow> string list \<Rightarrow> string option \<Rightarrow> error + string"
  json_parse :: "string \<Rightarrow> error + details"
  fs_mkdir :: "string \<Rightarrow> error option"
  wreck_request :: "string \<Rightarrow> error + response"
  spawn_tar :: "string \<Rightarrow> nat list \<Rightarrow> tar_outcome"
  createHash :: "string \<Rightarrow> (nat list \<Rightarrow> string) option"
  base64_to_hex :: "string \<Rightarrow> string"
  uniqueFilename :: "string \<Rightarrow> nat \<Rightarrow> string"
  tmpdir :: string
  path_join :: "string \<Rightarrow> string \<Rightarrow> string"
  path_resolve :: "string \<Rightarrow> string"
  util_inspect :: "tdetails \<Rightarrow> string"
  fetch_rejects_first :: bool
  package_rejects_first :: bool
  overlap :: nat
  sigint_after :: "nat option"

text \<open>
  The state of a run: the Validator that the running method is called on, the events
  so far, the next unused object identity, and how many names \<open>Hoek.uniqueFilename\<close>
  has handed out. \<open>detached\<close> holds the events of branches that a rejected
  \<open>Promise.all\<close> has left running: they happen after the rejection, while the caller
  goes on, and nothing waits for them.
\<close>

record state =
  this :: validator
  trace :: "event list"
  next_ref :: nat
  names :: nat
  detached :: "event list"

type_synonym 'a io = "state \<Rightarrow> (error + 'a) \<times> state"

definition io_return :: "'a \<Rightarrow> 'a io" where
  "io_return x = (\<lambda>s. (Inr x, s))"

definition io_throw :: "error \<Rightarrow> 'a io" where
  "io_throw e = (\<lambda>s. (Inl e, s))"

definition io_bind :: "'a io \<Rightarrow> ('a \<Rightarrow> 'b io) \<Rightarrow> 'b io" where
  "io_bind m f = (\<lambda>s. case m s of (Inl e, s') \<Rightarrow> (Inl e, s') | (Inr x, s') \<Rightarrow> f x s')"

text \<open>\<open>try { m } catch (err) { h err }\<close>\<close>

definition try_catch :: "'a io \<Rightarrow> (error \<Rightarrow> 'a io) \<Rightarrow> 'a io" where
  "try_catch m h = (\<lambda>s. case m s of (Inl e, s') \<Rightarrow> h e s' | (Inr x, s') \<Rightarrow> (Inr x, s'))"

text \<open>\<open>try { m } finally { c }\<close>: \<open>c\<close> runs whatever \<open>m\<close> did; an error of \<open>c\<close>
  replaces the outcome of \<open>m\<close>.\<close>

definition try_finally :: "'a io \<Rightarrow> 'b io \<Rightarrow> 'a io" where
  "try_finally m c = (\<lambda>s. case m s of (r, s') \<Rightarrow>
     (case c s' of (Inl e, s'') \<Rightarrow> (Inl e, s'') | (Inr _, s'') \<Rightarrow> (r, s'')))"

text \<open>The state when one branch of a \<open>Promise.all\<close> has rejected: \<open>before\<close> are the
  events of the two branches up to the rejection, \<open>after\<close> those the other branch
  still produces.\<close>

definition rejected :: "state \<Rightarrow> event list \<Rightarrow> event list \<Rightarrow> state \<Rightarrow> state" where
  "rejected s before after s2 =
     s2\<lparr>trace := trace s @ before, detached := detached s2 @ after\<rparr>"

text \<open>
  \<open>await Promise.all([a, b])\<close>. Both branches are started together. When both are
  fulfilled the caller goes on with the two values. As soon as one rejects, the caller
  goes on with that error; the other branch is not stopped: the events it had produced
  by then (\<open>k\<close> of them) are in the trace, the rest are detached. When both reject,
  \<open>a_first\<close> says whose rejection came first.
\<close>

definition promise_all :: "bool \<Rightarrow> nat \<Rightarrow> 'a io \<Rightarrow> 'b io \<Rightarrow> ('a \<times> 'b) io" where
  "promise_all a_first k a b = (\<lambda>s. case a s of (ra, s1) \<Rightarrow> (case b s1 of (rb, s2) \<Rightarrow>
     (let ta = drop (length (trace s)) (trace s1);
          tb = drop (length (trace s1)) (trace s2) in
      (case ra of
         Inr x \<Rightarrow>
           (case rb of
              Inr y \<Rightarrow> (Inr (x, y), s2)
            | Inl e2 \<Rightarrow> (Inl e2, rejected s (take k ta @ tb) (drop k ta) s2))
       | Inl e1 \<Rightarrow>
           (case rb of
              Inr y \<Rightarrow> (Inl e1, rejected s (ta @ take k tb) (drop k tb) s2)
            | Inl e2 \<Rightarrow>
                if a_first then (Inl e1, rejected s (ta @ take k tb) (drop k tb) s2)
                else (Inl e2, rejected s (take k ta @ tb) (drop k ta) s2))))))"

definition emit :: "event \<Rightarrow> unit io" where
  "emit ev = (\<lambda>s. (Inr (), s\<lparr>trace := trace s @ [ev]\<rparr>))"

definition hoek_assert :: "bool \<Rightarrow> string \<Rightarrow> unit io" where
  "hoek_assert c msg = (if c then io_return () else io_throw (AssertionError msg))"

text \<open>\<open>internals.exec(command, ...args)\<close>; a trailing options object is the \<open>cwd\<close>.\<close>

definition exec :: "world \<Rightarrow> string \<Rightarrow> string list \<Rightarrow> string option \<Rightarrow> string io" where
  "exec w command args cwd =
     (\<lambda>s. (execFile w command args cwd, s\<lparr>trace := trace s @ [Exec command args cwd]\<rparr>))"

definition mkdir :: "world \<Rightarrow> string \<Rightarrow> unit io" where
  "mkdir w p = (\<lambda>s. ((case fs_mkdir w p of None \<Rightarrow> Inr () | Some e \<Rightarrow> Inl e),
                      s\<lparr>trace := trace s @ [Mkdir p]\<rparr>))"

definition hoek_uniqueFilename :: "world \<Rightarrow> string \<Rightarrow> string io" where
  "hoek_uniqueFilename w p =
     (\<lambda>s. (Inr (uniqueFilename w p (names s)), s\<lparr>names := Suc (names s)\<rparr>))"

subsection \<open>String operations of JavaScript\<close>

text \<open>\<open>s.split(c)\<close> for a one-character separator: never empty, one piece more than
  there are separators.\<close>

fun split_on :: "char \<Rightarrow> string \<Rightarrow> string list" where
  "split_on c [] = [[]]"
| "split_on c (x # xs) =
     (let r = split_on c xs in if x = c then [] # r else (x # hd r) # tl r)"

text \<open>\<open>ls.join(sep)\<close>\<close>

fun join :: "string \<Rightarrow> string list \<Rightarrow> string" where
  "join sep [] = []"
| "join sep [l] = l"
| "join sep (l # ls) = l @ sep @ join sep ls"

definition is_ws :: "char \<Rightarrow> bool" where
  "is_ws c = (c \<in> set [CHR 0x09, CHR 0x0A, CHR 0x0B, CHR 0x0C, CHR 0x0D, CHR 0x20, CHR 0xA0])"

text \<open>\<open>s.trim()\<close>\<close>

definition trim :: "string \<Rightarrow> string" where
  "trim s = rev (dropWhile is_ws (rev (dropWhile is_ws s)))"

definition digit :: "nat \<Rightarrow> char" where
  "digit n = ''0123456789'' ! n"

function string_of_nat :: "nat \<Rightarrow> string" where
  "string_of_nat n = (if n < 10 then [digit n] else string_of_nat (n div 10) @ [digit (n mod 10)])"
  by pat_completeness auto
termination
  by (relation "measure id") auto

declare string_of_nat.simps [simp del]

definition string_of_int :: "int \<Rightarrow> string" where
  "string_of_int i = (if i < 0 then CHR ''-'' # string_of_nat (nat (- i)) else string_of_nat (nat i))"

section \<open>lib/index.js\<close>

subsection \<open>Taint\<close>

text \<open>\<open>new internals.Taint(reason, details)\<close>: a new object, with an identity no
  earlier object has.\<close>

definition new_Taint :: "string option \<Rightarrow> tdetails \<Rightarrow> taint io" where
  "new_Taint r d =
     (\<lambda>s. (Inr \<lparr>ref = next_ref s, reason = r, details = d\<rparr>, s\<lparr>next_ref := Suc (next_ref s)\<rparr>))"

text \<open>\<open>internals.Taint.none = new internals.Taint()\<close>, evaluated once when the module
  is loaded: the first object, identity 0.\<close>

definition Taint_none :: taint where
  "Taint_none = \<lparr>ref = 0, reason = None, details = Undefined\<rparr>"

text \<open>The state once the module is loaded and a Validator \<open>v\<close> is constructed.\<close>

definition loaded :: "validator \<Rightarrow> state" where
  "loaded v = \<lparr>this = v, trace = [], next_ref = Suc (ref Taint_none), names = 0, detached = []\<rparr>"

text \<open>\<open>clean() { return this === internals.Taint.none; }\<close>\<close>

definition clean :: "taint \<Rightarrow> bool" where
  "clean t = (ref t = ref Taint_none)"

subsection \<open>ValidationError\<close>

text \<open>The second argument of the constructor, as \<open>check\<close> builds it.\<close>

record verror_arg =
  o_pkg :: "string option"
  o_version :: "string option"
  o_diff :: "string option"
  o_taint :: "taint option"

text \<open>\<open>constructor(message, { pkg, version, diff } = {})\<close> with
  \<open>this.details = { pkg, version, diff }\<close>\<close>

definition new_ValidationError :: "string \<Rightarrow> verror_arg \<Rightarrow> error" where
  "new_ValidationError message a =
     ValidationError message \<lparr>e_pkg = o_pkg a, e_version = o_version a, e_diff = o_diff a\<rparr>"

subsection \<open>packageHash\<close>

record package_hash =
  alg :: string
  hash :: string

text \<open>The string of a property already tested truthy.\<close>

definition sval :: "string option \<Rightarrow> string" where
  "sval x = (case x of None \<Rightarrow> [] | Some s \<Rightarrow> s)"

definition packageHash :: "world \<Rightarrow> info \<Rightarrow> error + package_hash" where
  "packageHash w i =
     (case dist i of
        None \<Rightarrow> Inl (TypeError ''Cannot read property of undefined'')
      | Some d \<Rightarrow>
          if truthy (integrity d) then
            (case take 2 (split_on CHR ''-'' (sval (integrity d))) of
               [a, h] \<Rightarrow> Inr \<lparr>alg = a, hash = base64_to_hex w h\<rparr>
             | _ \<Rightarrow> Inl (TypeError ''The first argument must be a string''))
          else if truthy (shasum d) then Inr \<lparr>alg = ''sha1'', hash = sval (shasum d)\<rparr>
          else Inl (Error ''No package hash''))"

subsection \<open>Validator\<close>

text \<open>\<open>constructor(packageName, version, options)\<close>\<close>

definition new_Validator :: "string \<Rightarrow> string \<Rightarrow> bool \<Rightarrow> validator io" where
  "new_Validator packageName ver loose =
     io_bind (hoek_assert (packageName \<noteq> []) ''Bad package name'') (\<lambda>_.
     io_bind (hoek_assert (ver \<noteq> []) ''Bad package version'') (\<lambda>_.
     io_return \<lparr>v_package = packageName, v_version = ver, v_loose = loose, v_details = None\<rparr>))"

definition set_details :: "details \<Rightarrow> unit io" where
  "set_details d = (\<lambda>s. (Inr (), s\<lparr>this := (this s)\<lparr>v_details := Some d\<rparr>\<rparr>))"

text \<open>The object \<open>{}\<close>, read through the properties of a registry record.\<close>

definition empty_object :: info where
  "empty_object = \<lparr>name = None, version = [], dist = None, repository = None,
                    gitHead = None, dependencies = None\<rparr>"

definition fetchDetails :: "world \<Rightarrow> info io" where
  "fetchDetails w =
     io_bind (\<lambda>s.
       if v_details (this s) = None \<or> v_details (this s) = Some Popped then
         io_bind (exec w ''npm'' [''view'', ''-json'', v_package (this s) @ ''@'' @ v_version (this s)] None)
           (\<lambda>json. if json \<noteq> [] then
                      (case json_parse w json of Inl e \<Rightarrow> io_throw e | Inr d \<Rightarrow> set_details d)
                    else set_details (Single empty_object)) s
       else (Inr (), s)) (\<lambda>_.
     io_bind (\<lambda>s.
       case v_details (this s) of
         Some (Multiple xs) \<Rightarrow>
           if \<not> v_loose (this s) then (Inl (Error ''Version specifier is too loose''), s)
           else set_details (if xs = [] then Popped else Single (last xs)) s
       | _ \<Rightarrow> (Inr (), s)) (\<lambda>_.
     (\<lambda>s. case v_details (this s) of
         Some (Single i) \<Rightarrow>
           if \<not> truthy (name i) then (Inl (Error ''Failed to find package / version''), s)
           else (Inr i, s)
       | _ \<Rightarrow> (Inl (TypeError ''Cannot read property of undefined''), s))))"

subsection \<open>fetchPackageSource\<close>

definition fetchDone :: "response \<Rightarrow> error + unit" where
  "fetchDone res = (case ending res of
      End \<Rightarrow> Inr ()
    | StreamError e \<Rightarrow> Inl e
    | Aborted \<Rightarrow> Inl (Error ''Aborted request''))"

definition tarDone :: "tar_outcome \<Rightarrow> error + unit" where
  "tarDone t = (case t of
      TarError e \<Rightarrow> Inl e
    | TarExit c \<Rightarrow>
        if c = Some 0 then Inr ()
        else Inl (Error (''Abnormal exit, code: '' @
                          (case c of None \<Rightarrow> ''null'' | Some n \<Rightarrow> string_of_int n))))"

definition fetchPackageSource :: "world \<Rightarrow> string \<Rightarrow> taint io" where
  "fetchPackageSource w dst0 =
     io_bind (hoek_assert (dst0 \<noteq> [] \<and> dst0 \<noteq> ''/'') ''Invalid dst path'') (\<lambda>_.
     io_bind (fetchDetails w) (\<lambda>i.
     io_bind (case dist i of
                None \<Rightarrow> io_throw (TypeError ''Cannot read property of undefined'')
              | Some d \<Rightarrow> io_bind (hoek_assert (truthy (tarball d)) ''Missing package url'')
                            (\<lambda>_. io_return (sval (tarball d)))) (\<lambda>tarball_url.
     io_bind (\<lambda>s. (wreck_request w tarball_url, s\<lparr>trace := trace s @ [Request tarball_url]\<rparr>)) (\<lambda>res.
     if statusCode res \<noteq> 200 then
       io_throw (Error (''Bad server response: '' @ string_of_int (statusCode res)))
     else
       let dst = path_resolve w dst0 in
       io_bind (mkdir w dst) (\<lambda>_.
       io_bind (emit (Spawn ''tar'' [''zx'', ''--strip=1''] dst)) (\<lambda>_.
       case packageHash w i of
         Inl e \<Rightarrow> io_throw e
       | Inr ph \<Rightarrow>
          (case createHash w (alg ph) of
             None \<Rightarrow> io_throw (Error ''Digest method not supported'')
           | Some hasher \<Rightarrow>
               io_bind (promise_all (fetch_rejects_first w) (overlap w)
                          (\<lambda>s. (fetchDone res, s))
                          (\<lambda>s. (tarDone (spawn_tar w dst (body res)), s))) (\<lambda>_.
               let digest = hasher (body res) in
               if digest \<noteq> hash ph then io_throw (Error ''Bad package hash'')
               else io_return Taint_none))))))))"

subsection \<open>fetchGitSource\<close>

definition url_parts :: "string \<Rightarrow> string list" where
  "url_parts u = take 2 (split_on CHR '':'' u)"

definition isGithub :: "string list \<Rightarrow> bool" where
  "isGithub parts = (case parts of [p0, p1] \<Rightarrow> prefix ''//github.com/'' p1 | _ \<Rightarrow> False)"

definition repoUrl :: "string \<Rightarrow> string" where
  "repoUrl u =
     (let parts = url_parts u in
      if isGithub parts \<and> (hd parts = ''git+https'' \<or> hd parts = ''git'')
      then ''https:'' @ parts ! 1 else u)"

definition clone_args :: "string \<Rightarrow> string \<Rightarrow> string \<Rightarrow> string list" where
  "clone_args u tag dst = [''clone'', ''--depth'', ''1'', ''--single-branch'', u, ''-b'', tag, dst]"

text \<open>The inner \<open>try\<close>: clone at \<open>v<version>\<close>, then at the bare version; when both
  fail, \<open>throw err\<close> with the error of the first.\<close>

definition cloneByTag :: "world \<Rightarrow> string \<Rightarrow> info \<Rightarrow> string \<Rightarrow> string io" where
  "cloneByTag w u i dst =
     try_catch (exec w ''git'' (clone_args u (''v'' @ version i) dst) None) (\<lambda>err.
       try_catch (exec w ''git'' (clone_args u (version i) dst) None) (\<lambda>ignoredErr.
         io_throw err))"

text \<open>\<open>git rev-parse --verify HEAD\<close> and the comparison with \<open>info.gitHead\<close>.\<close>

definition verifyHead :: "world \<Rightarrow> info \<Rightarrow> string \<Rightarrow> taint io" where
  "verifyHead w i dst =
     io_bind (exec w ''git'' [''rev-parse'', ''--verify'', ''HEAD''] (Some dst)) (\<lambda>out.
     let gitRev = trim out in
     if gitRev = [] \<or> Some gitRev \<noteq> gitHead i then
       new_Taint (Some (if truthy (gitHead i) then ''sha-mismatch'' else ''sha-missing''))
                 (ShaDetails (gitHead i) gitRev)
     else io_return Taint_none)"

text \<open>The body of the outer \<open>catch\<close> after its guard: retry with the sha.\<close>

definition fallbackBySha :: "world \<Rightarrow> string \<Rightarrow> info \<Rightarrow> string \<Rightarrow> taint io" where
  "fallbackBySha w u i dst =
     io_bind (exec w ''rm'' [''-rf'', dst] None) (\<lambda>_.
     io_bind (mkdir w dst) (\<lambda>_.
     io_bind (exec w ''git'' [''init''] (Some dst)) (\<lambda>_.
     io_bind (exec w ''git'' [''remote'', ''add'', ''origin'', u] (Some dst)) (\<lambda>_.
     io_bind (exec w ''git'' [''fetch'', ''--depth'', ''1'', ''origin'', sval (gitHead i)] (Some dst)) (\<lambda>_.
     io_bind (exec w ''git'' [''checkout'', ''FETCH_HEAD''] (Some dst)) (\<lambda>_.
     new_Taint (Some ''tag-missing'') (TagDetails [''v'' @ version i, version i])))))))"

definition fetchGitSource :: "world \<Rightarrow> string \<Rightarrow> taint io" where
  "fetchGitSource w dst0 =
     io_bind (hoek_assert (dst0 \<noteq> [] \<and> dst0 \<noteq> ''/'') ''Invalid dst path'') (\<lambda>_.
     io_bind (fetchDetails w) (\<lambda>i.
     let repo = (case repository i of None \<Rightarrow> \<lparr>rtype = None, url = None\<rparr> | Some r \<Rightarrow> r) in
     io_bind (hoek_assert (rtype repo = Some ''git'' \<and> truthy (url repo)) ''Did not find git repo url'') (\<lambda>_.
     let u = repoUrl (sval (url repo));
         github = isGithub (url_parts (sval (url repo)));
         dst = path_resolve w dst0 in
     try_catch
       (io_bind (cloneByTag w u i dst) (\<lambda>_. verifyHead w i dst))
       (\<lambda>err. if \<not> github \<or> \<not> truthy (gitHead i) then io_throw err
               else fallbackBySha w u i dst))))"

subsection \<open>check\<close>

definition only_in_git :: "string \<Rightarrow> bool" where
  "only_in_git line = prefix ''Only in git'' line"

text \<open>The diff of the two trees and the reading of its outcome. \<open>this.pkg\<close> is not a
  property of a Validator, so \<open>pkg\<close> is \<open>undefined\<close>.\<close>

definition diffReconcile :: "world \<Rightarrow> string \<Rightarrow> taint \<Rightarrow> taint io" where
  "diffReconcile w tmpDir git =
     try_catch
       (io_bind (exec w ''diff'' [''-r'', ''-u'', ''--strip-trailing-cr'', ''git'', ''package''] (Some tmpDir))
          (\<lambda>_. io_return git))
       (\<lambda>err. case err of
          ExecError m c out \<Rightarrow>
            if (c = ExitCode 1 \<or> c = ExitCode 2) \<and> out \<noteq> [] then
              (let lines = split_on CHR 0x0A out;
                   filtered = filter (\<lambda>line. \<not> only_in_git line) lines;
                   diff = trim (join [CHR 0x0A] filtered) in
               if diff \<noteq> [] then
                 (\<lambda>s. (Inl (new_ValidationError ''Mismatch''
                          \<lparr>o_pkg = None, o_version = Some (v_version (this s)),
                           o_diff = Some diff, o_taint = Some git\<rparr>), s))
               else io_return git)
            else io_throw err
        | _ \<Rightarrow> io_throw err)"

definition advisory :: "world \<Rightarrow> taint \<Rightarrow> string" where
  "advisory w git =
     ''git checkout tainted due to '' @ [CHR 0x22] @
     (case reason git of None \<Rightarrow> ''undefined'' | Some r \<Rightarrow> r) @ [CHR 0x22] @ '': '' @
     util_inspect w (details git)"

definition check :: "world \<Rightarrow> taint io" where
  "check w =
     io_bind (hoek_uniqueFilename w (tmpdir w)) (\<lambda>tmpDir.
     let pkgPath = path_join w tmpDir ''package'';
         gitPath = path_join w tmpDir ''git'' in
     io_bind (mkdir w tmpDir) (\<lambda>_.
     try_finally
       (io_bind (fetchDetails w) (\<lambda>_.
        io_bind (promise_all (package_rejects_first w) (overlap w)
                   (fetchPackageSource w pkgPath) (fetchGitSource w gitPath)) (\<lambda>(_, git).
        io_bind (if \<not> clean git then emit (ConsoleError (advisory w git)) else io_return ()) (\<lambda>_.
        diffReconcile w tmpDir git))))
       (exec w ''rm'' [''-rf'', tmpDir] None)))"

section \<open>bin/validate\<close>

text \<open>
  \<open>results\<close> is the Map of the script: a key is absent, or present with \<open>undefined\<close>
  (\<open>Some None\<close>), or present with the Taint that \<open>check\<close> returned. \<open>checked\<close> is
  not in the script: it lists the version keys for which \<open>check\<close> was called, in order.
\<close>

record wstate =
  results :: "string \<rightharpoonup> taint option"
  checked :: "string list"
  lib :: state

text \<open>What \<open>validatePkg\<close> returns: \<open>{ result }\<close>, \<open>{ error, info }\<close> or \<open>{ result, info }\<close>.\<close>

record pkg_result =
  r_result :: "taint option"
  r_error :: "error option"
  r_info :: "info option"

definition console_log :: "string \<Rightarrow> wstate \<Rightarrow> wstate" where
  "console_log m ws = ws\<lparr>lib := (lib ws)\<lparr>trace := trace (lib ws) @ [ConsoleLog m]\<rparr>\<rparr>"

text \<open>\<open>results.set(key, value)\<close>\<close>

definition memo_set :: "string \<Rightarrow> taint option \<Rightarrow> wstate \<Rightarrow> wstate" where
  "memo_set key v ws =
     ws\<lparr>results := (results ws)(key \<mapsto> v),
        lib := (lib ws)\<lparr>trace := trace (lib ws) @ [MemoSet key v]\<rparr>\<rparr>"

text \<open>The \<open>try\<close> block of \<open>validatePkg\<close> with its \<open>catch\<close>, entered once the query
  key is marked.\<close>

definition attempt :: "world \<Rightarrow> string \<Rightarrow> string \<Rightarrow> bool \<Rightarrow> string \<Rightarrow> wstate \<Rightarrow> pkg_result \<times> wstate" where
  "attempt w pkg ver loose queryKey ws1 =
     (case new_Validator pkg ver loose (lib ws1) of
        (Inl err, s1) \<Rightarrow>
          (\<lparr>r_result = None, r_error = Some err, r_info = None\<rparr>, ws1\<lparr>lib := s1\<rparr>)
      | (Inr v, s1) \<Rightarrow>
         (case fetchDetails w (s1\<lparr>this := v\<rparr>) of
            (Inl err, s2) \<Rightarrow>
              (\<lparr>r_result = None, r_error = Some err, r_info = None\<rparr>, ws1\<lparr>lib := s2\<rparr>)
          | (Inr i, s2) \<Rightarrow>
             let versionKey = pkg @ ''@'' @ version i in
             (case results ws1 versionKey of
                Some r \<Rightarrow>
                  (\<lparr>r_result = r, r_error = None, r_info = None\<rparr>, ws1\<lparr>lib := s2\<rparr>)
              | None \<Rightarrow>
                 let ws2 = console_log ('' * Validating package: '' @ sval (name i) @ ''@'' @ version i)
                             (memo_set versionKey None (ws1\<lparr>lib := s2\<rparr>));
                     ws3 = ws2\<lparr>checked := checked ws2 @ [versionKey]\<rparr> in
                 (case check w (lib ws3) of
                    (Inl err, s3) \<Rightarrow>
                      (\<lparr>r_result = None, r_error = Some err, r_info = Some i\<rparr>, ws3\<lparr>lib := s3\<rparr>)
                  | (Inr t, s3) \<Rightarrow>
                      (\<lparr>r_result = Some t, r_error = None, r_info = Some i\<rparr>,
                       memo_set queryKey (Some t)
                         (memo_set versionKey (Some t) (ws3\<lparr>lib := s3\<rparr>)))))))"

definition validatePkg :: "world \<Rightarrow> string \<Rightarrow> string \<Rightarrow> bool \<Rightarrow> wstate \<Rightarrow> pkg_result \<times> wstate" where
  "validatePkg w pkg ver loose ws =
     (let queryKey = pkg @ ''@'' @ ver in
      case results ws queryKey of
        Some r \<Rightarrow> (\<lparr>r_result = r, r_error = None, r_info = None\<rparr>, ws)
      | None \<Rightarrow> attempt w pkg ver loose queryKey (memo_set queryKey None ws))"

fun message :: "error \<Rightarrow> string" where
  "message (Error m) = m"
| "message (AssertionError m) = m"
| "message (TypeError m) = m"
| "message (ExecError m c out) = m"
| "message (ValidationError m d) = m"

text \<open>\<open>console.log(' ! Fail:', error.message)\<close>, and the diff when the error has one.\<close>

definition log_fail :: "error \<Rightarrow> wstate \<Rightarrow> wstate" where
  "log_fail e ws =
     (let ws1 = console_log ('' ! Fail: '' @ message e) ws in
      case e of
        ValidationError m d \<Rightarrow> (if truthy (e_diff d) then console_log (sval (e_diff d)) ws1 else ws1)
      | _ \<Rightarrow> ws1)"

text \<open>\<open>exiting\<close>: whether SIGINT has arrived. The signal arrives, if at all, once
  \<open>sigint_after\<close> events are in the trace.\<close>

definition exiting :: "world \<Rightarrow> wstate \<Rightarrow> bool" where
  "exiting w ws = (case sigint_after w of None \<Rightarrow> False | Some k \<Rightarrow> k \<le> length (trace (lib ws)))"

text \<open>The loop over \<open>info.dependencies\<close>; \<open>call\<close> is the recursive \<open>validate\<close>. The
  result is the final value of \<open>tainted\<close>; \<open>None\<close> when \<open>call\<close> gave no answer.\<close>

fun for_deps :: "world \<Rightarrow> (string \<Rightarrow> string \<Rightarrow> wstate \<Rightarrow> (error + bool) option \<times> wstate) \<Rightarrow>
    (string \<times> string) list \<Rightarrow> bool \<Rightarrow> wstate \<Rightarrow> (error + bool) option \<times> wstate" where
  "for_deps w call [] tainted ws = (Some (Inr tainted), ws)"
| "for_deps w call ((dep, spec) # ds) tainted ws =
     (if exiting w ws then (Some (Inl (Error ''Aborted'')), ws)
      else case call dep spec ws of
             (None, ws') \<Rightarrow> (None, ws')
           | (Some (Inl e), ws') \<Rightarrow> (Some (Inl e), ws')
           | (Some (Inr ok), ws') \<Rightarrow> for_deps w call ds (tainted \<or> \<not> ok) ws')"

text \<open>\<open>info && info.dependencies\<close> of what \<open>validatePkg\<close> returned.\<close>

definition deps_of :: "pkg_result \<Rightarrow> (string \<times> string) list option" where
  "deps_of r = (case r_info r of None \<Rightarrow> None | Some i \<Rightarrow> dependencies i)"

text \<open>\<open>validate\<close>, with a bound on the depth of the recursion: \<open>None\<close> when the bound
  is reached, otherwise the rejection or the boolean the promise settles with.\<close>

primrec validate :: "nat \<Rightarrow> world \<Rightarrow> string \<Rightarrow> string \<Rightarrow> bool \<Rightarrow> bool \<Rightarrow> wstate \<Rightarrow>
    (error + bool) option \<times> wstate" where
  "validate 0 = (\<lambda>w pkg ver loose recursive ws. (None, ws))"
| "validate (Suc n) = (\<lambda>w pkg ver loose recursive ws.
     case validatePkg w pkg ver loose ws of (r, ws1) \<Rightarrow>
       (let ws2 = (case r_error r of None \<Rightarrow> ws1 | Some e \<Rightarrow> log_fail e ws1);
            tainted = (case r_result r of None \<Rightarrow> True | Some t \<Rightarrow> \<not> clean t) in
        (case (if recursive then deps_of r else None) of
           None \<Rightarrow> (Some (Inr (\<not> tainted)), ws2)
         | Some deps \<Rightarrow>
            (case for_deps w (\<lambda>dep spec. validate n w dep spec True recursive) deps tainted ws2 of
               (Some (Inr t), ws3) \<Rightarrow> (Some (Inr (\<not> t)), ws3)
             | (other, ws3) \<Rightarrow> (other, ws3)))))"

text \<open>The state in which the script starts: an empty Map, the module loaded. No
  Validator exists yet; \<open>validatePkg\<close> constructs one before any method runs.\<close>

definition start :: wstate where
  "start = \<lparr>results = Map.empty, checked = [],
            lib = loaded \<lparr>v_package = [], v_version = [], v_loose = False, v_details = None\<rparr>\<rparr>"

section \<open>Notions used to state the properties\<close>

text \<open>The error of a settled call, if it was rejected.\<close>

definition err_of :: "error + 'a \<Rightarrow> error option" where
  "err_of r = (case r of Inl e \<Rightarrow> Some e | Inr x \<Rightarrow> None)"

text \<open>The first error in a sequence of step outcomes.\<close>

fun first_error :: "error option list \<Rightarrow> error option" where
  "first_error [] = None"
| "first_error (None # os) = first_error os"
| "first_error (Some e # os) = Some e"

subsection \<open>A small world for concrete runs\<close>

definition ex_info :: "string option \<Rightarrow> string option \<Rightarrow> info" where
  "ex_info sha head =
     \<lparr>name = Some ''pkg'', version = ''1.0.0'',
      dist = Some \<lparr>integrity = None, shasum = sha,
                   tarball = Some ''https://registry.example/pkg-1.0.0.tgz''\<rparr>,
      repository = Some \<lparr>rtype = Some ''git'', url = Some ''git+https://github.com/u/pkg.git''\<rparr>,
      gitHead = head, dependencies = None\<rparr>"

text \<open>A short name for a command: \<open>clone <tag>\<close> for a clone, otherwise the command
  and its first argument.\<close>

definition label :: "string \<Rightarrow> string list \<Rightarrow> string" where
  "label c args = (if c = ''git'' \<and> hd args = ''clone'' then ''clone '' @ args ! 6
                   else c @ '' '' @ hd args)"

text \<open>Commands whose label is in \<open>failing\<close> exit with status 128 and no output;
  \<open>rev-parse\<close> prints \<open>sha_out\<close>; \<open>diff\<close> settles as \<open>d\<close>; \<open>npm view\<close> prints its query.\<close>

definition ex_exec :: "string list \<Rightarrow> string \<Rightarrow> error + string \<Rightarrow>
    string \<Rightarrow> string list \<Rightarrow> string option \<Rightarrow> error + string" where
  "ex_exec failing sha_out d c args cwd =
     (let l = label c args in
      if l \<in> set failing then Inl (ExecError (''Command failed: '' @ l) (ExitCode 128) [])
      else if l = ''git rev-parse'' then Inr sha_out
      else if l = ''diff -r'' then d
      else if l = ''npm view'' then Inr (args ! 2)
      else Inr [])"

definition ex_sha1 :: "nat list \<Rightarrow> string" where
  "ex_sha1 bytes = (if bytes = [] then ''da39a3ee5e6b4b0d3255bfef95601890afd80709''
                    else ''0000000000000000000000000000000000000000'')"

definition ex_world :: "(string \<Rightarrow> string list \<Rightarrow> string option \<Rightarrow> error + string) \<Rightarrow>
    (string \<Rightarrow> error + details) \<Rightarrow> world" where
  "ex_world ex parse =
     \<lparr>execFile = ex, json_parse = parse, fs_mkdir = (\<lambda>p. None),
      wreck_request = (\<lambda>u. Inr \<lparr>statusCode = 200, body = [], ending = End\<rparr>),
      spawn_tar = (\<lambda>cwd bytes. TarExit (Some 0)),
      createHash = (\<lambda>a. if a = ''sha1'' then Some ex_sha1 else None),
      base64_to_hex = (\<lambda>b. b),
      uniqueFilename = (\<lambda>p k. p @ ''/validate-'' @ string_of_nat k),
      tmpdir = ''/tmp'',
      path_join = (\<lambda>a b. a @ ''/'' @ b),
      path_resolve = (\<lambda>p. p),
      util_inspect = (\<lambda>d. ''{}''),
      fetch_rejects_first = True, package_rejects_first = True, overlap = 1,
      sigint_after = None\<rparr>"

text \<open>A world with one package: every query resolves to \<open>ex_info sha head\<close>.\<close>

definition one_world :: "string list \<Rightarrow> string \<Rightarrow> error + string \<Rightarrow>
    string option \<Rightarrow> string option \<Rightarrow> world" where
  "one_world failing sha_out d sha head =
     ex_world (ex_exec failing sha_out d) (\<lambda>json. Inr (Single (ex_info sha head)))"

definition ex_validator :: validator where
  "ex_validator = \<lparr>v_package = ''pkg'', v_version = ''latest'', v_loose = False, v_details = None\<rparr>"

subsection \<open>Hexadecimal strings that differ in letter case only\<close>

definition hex_lower :: "char \<Rightarrow> char" where
  "hex_lower c =
     (if c = CHR ''A'' then CHR ''a'' else if c = CHR ''B'' then CHR ''b''
      else if c = CHR ''C'' then CHR ''c'' else if c = CHR ''D'' then CHR ''d''
      else if c = CHR ''E'' then CHR ''e'' else if c = CHR ''F'' then CHR ''f'' else c)"

definition hex_equal :: "string \<Rightarrow> string \<Rightarrow> bool" where
  "hex_equal a b = (map hex_lower a = map hex_lower b)"

subsection \<open>A diff that reports one file present in the package only\<close>

definition mismatch_out :: "error + string" where
  "mismatch_out = Inl (ExecError ''Command failed: diff'' (ExitCode 1) ''Only in package: extra.js\<newline>'')"


subsection \<open>What \<open>diff -r -u git package\<close> reports\<close>

















text \<open>A world in which the registry answers the request for the tarball with status
  404, while the tag clone succeeds and the checked-out commit is the recorded one.\<close>

definition w404 :: world where
  "w404 = (one_world [] ''abc123\<newline>'' (Inr []) None (Some ''abc123''))
            \<lparr>wreck_request := (\<lambda>u. Inr \<lparr>statusCode = 404, body = [], ending = End\<rparr>)\<rparr>"

text \<open>A computation advances when it only appends to the trace and draws no name from
  \<open>Hoek.uniqueFilename\<close>.\<close>

definition advances :: "'a io \<Rightarrow> bool" where
  "advances m = (\<forall>s. prefix (trace s) (trace (snd (m s))) \<and> names (snd (m s)) = names s)"

subsection \<open>The dependency walk\<close>








section \<open>Unfolding rules\<close>

lemmas io_defs = io_bind_def io_return_def io_throw_def try_catch_def try_finally_def
  promise_all_def hoek_assert_def exec_def mkdir_def emit_def new_Taint_def

lemmas ex_defs = ex_info_def label_def ex_exec_def ex_sha1_def ex_world_def one_world_def
  ex_validator_def loaded_def Taint_none_def

lemmas check_defs = check_def hoek_uniqueFilename_def fetchDetails_def set_details_def
  fetchPackageSource_def packageHash_def fetchDone_def tarDone_def
  fetchGitSource_def cloneByTag_def verifyHead_def fallbackBySha_def repoUrl_def url_parts_def
  isGithub_def clone_args_def diffReconcile_def only_in_git_def new_ValidationError_def
  advisory_def clean_def trim_def is_ws_def sval_def Let_def io_defs

section \<open>Properties of fetchGitSource\<close>

subsection \<open>Facts about the small world\<close>

lemma ex_fetchDetails:
  "''npm view'' \<notin> set f \<Longrightarrow> fetchDetails (one_world f so d sha head) (loaded ex_validator) =
     (Inr (ex_info sha head), snd (fetchDetails (one_world f so d sha head) (loaded ex_validator)))"
  by (simp add: fetchDetails_def set_details_def io_defs ex_defs)

lemma ex_repoUrl: "repoUrl ''git+https://github.com/u/pkg.git'' = ''https://github.com/u/pkg.git''"
  by (simp add: repoUrl_def url_parts_def isGithub_def)

lemma ex_isGithub: "isGithub (url_parts ''git+https://github.com/u/pkg.git'')"
  by (simp add: url_parts_def isGithub_def)

lemma ex_trim: "trim ''abc123\<newline>'' = ''abc123''" "trim ''def456\<newline>'' = ''def456''"
  by (simp_all add: trim_def is_ws_def)

subsection \<open>VerifyHead\<close>

text \<open>
  C2. When one of the two tag clones succeeds and \<open>git rev-parse --verify HEAD\<close> prints
  a sha, \<open>fetchGitSource\<close> returns exactly one of three results, decided by the trimmed
  output and \<open>info.gitHead\<close>: when \<open>gitHead\<close> is present and equal to the sha, the
  shared \<open>Taint.none\<close>; when \<open>gitHead\<close> is present and differs, a Taint with reason
  \<open>sha-mismatch\<close> carrying the expected and the found commit; when \<open>gitHead\<close> is
  absent, a Taint with reason \<open>sha-missing\<close> carrying the found commit. Present means
  truthy, as the code tests it: an empty string counts as absent.
\<close>

theorem fetchGitSource_verifyHead:
  assumes "dst \<noteq> []" "dst \<noteq> ''/''"
    and "fetchDetails w s = (Inr i, s1)"
    and "repository i = Some r" "rtype r = Some ''git''" "truthy (url r)"
    and "execFile w ''git'' (clone_args (repoUrl (sval (url r))) (''v'' @ version i) (path_resolve w dst)) None = Inr o1
       \<or> execFile w ''git'' (clone_args (repoUrl (sval (url r))) (version i) (path_resolve w dst)) None = Inr o2"
    and "execFile w ''git'' [''rev-parse'', ''--verify'', ''HEAD''] (Some (path_resolve w dst)) = Inr out"
  shows "(truthy (gitHead i) \<and> gitHead i = Some (trim out) \<longrightarrow>
            fst (fetchGitSource w dst s) = Inr Taint_none) \<and>
         (truthy (gitHead i) \<and> gitHead i \<noteq> Some (trim out) \<longrightarrow>
            (\<exists>t. fst (fetchGitSource w dst s) = Inr t \<and> reason t = Some ''sha-mismatch'' \<and>
                 details t = ShaDetails (gitHead i) (trim out))) \<and>
         (\<not> truthy (gitHead i) \<longrightarrow>
            (\<exists>t. fst (fetchGitSource w dst s) = Inr t \<and> reason t = Some ''sha-missing'' \<and>
                 details t = ShaDetails (gitHead i) (trim out)))"
proof (cases "gitHead i")
  case None
  with assms show ?thesis
    by (cases "execFile w ''git'' (clone_args (repoUrl (sval (url r))) (''v'' @ version i) (path_resolve w dst)) None")
       (auto simp: fetchGitSource_def cloneByTag_def verifyHead_def io_defs Let_def)
next
  case (Some h)
  with assms show ?thesis
    by (cases "execFile w ''git'' (clone_args (repoUrl (sval (url r))) (''v'' @ version i) (path_resolve w dst)) None")
       (auto simp: fetchGitSource_def cloneByTag_def verifyHead_def io_defs Let_def)
qed

theorem fetchGitSource_verifyHead_witness:
  "fst (fetchGitSource (one_world [] ''abc123\<newline>'' (Inr []) None (Some ''abc123'')) ''/tmp/validate-0/git''
         (loaded ex_validator)) = Inr Taint_none \<and>
   (\<exists>t. fst (fetchGitSource (one_world [''clone v1.0.0''] ''def456\<newline>'' (Inr []) None (Some ''abc123''))
               ''/tmp/validate-0/git'' (loaded ex_validator)) = Inr t \<and>
        reason t = Some ''sha-mismatch'' \<and> details t = ShaDetails (Some ''abc123'') ''def456'') \<and>
   (\<exists>t. fst (fetchGitSource (one_world [] ''def456\<newline>'' (Inr []) None None)
               ''/tmp/validate-0/git'' (loaded ex_validator)) = Inr t \<and>
        reason t = Some ''sha-missing'' \<and> details t = ShaDetails None ''def456'')"
proof -
  let ?r = "\<lparr>rtype = Some ''git'', url = Some ''git+https://github.com/u/pkg.git''\<rparr>"
  let ?dst = "''/tmp/validate-0/git''"
  have fa: "fetchDetails (one_world [] ''abc123\<newline>'' (Inr []) None (Some ''abc123'')) (loaded ex_validator) =
     (Inr (ex_info None (Some ''abc123'')), snd (fetchDetails (one_world [] ''abc123\<newline>'' (Inr []) None (Some ''abc123'')) (loaded ex_validator)))"
    by (rule ex_fetchDetails) simp
  have fb: "fetchDetails (one_world [''clone v1.0.0''] ''def456\<newline>'' (Inr []) None (Some ''abc123'')) (loaded ex_validator) =
     (Inr (ex_info None (Some ''abc123'')), snd (fetchDetails (one_world [''clone v1.0.0''] ''def456\<newline>'' (Inr []) None (Some ''abc123'')) (loaded ex_validator)))"
    by (rule ex_fetchDetails) simp
  have fc: "fetchDetails (one_world [] ''def456\<newline>'' (Inr []) None None) (loaded ex_validator) =
     (Inr (ex_info None None), snd (fetchDetails (one_world [] ''def456\<newline>'' (Inr []) None None) (loaded ex_validator)))"
    by (rule ex_fetchDetails) simp
  have a: "fst (fetchGitSource (one_world [] ''abc123\<newline>'' (Inr []) None (Some ''abc123'')) ?dst
         (loaded ex_validator)) = Inr Taint_none"
    using fetchGitSource_verifyHead [OF _ _ fa, where r = ?r and ?o1.0 = "[]" and out = "''abc123\<newline>''"]
    by (simp add: ex_repoUrl ex_trim sval_def clone_args_def ex_info_def label_def ex_exec_def ex_world_def one_world_def)
  have b: "(\<exists>t. fst (fetchGitSource (one_world [''clone v1.0.0''] ''def456\<newline>'' (Inr []) None (Some ''abc123''))
               ?dst (loaded ex_validator)) = Inr t \<and>
        reason t = Some ''sha-mismatch'' \<and> details t = ShaDetails (Some ''abc123'') ''def456'')"
    using fetchGitSource_verifyHead [OF _ _ fb, where r = ?r and ?o2.0 = "[]" and out = "''def456\<newline>''"]
    by (simp add: ex_repoUrl ex_trim sval_def clone_args_def ex_info_def label_def ex_exec_def ex_world_def one_world_def)
  have c: "(\<exists>t. fst (fetchGitSource (one_world [] ''def456\<newline>'' (Inr []) None None)
               ?dst (loaded ex_validator)) = Inr t \<and>
        reason t = Some ''sha-missing'' \<and> details t = ShaDetails None ''def456'')"
    using fetchGitSource_verifyHead [OF _ _ fc, where r = ?r and ?o1.0 = "[]" and out = "''def456\<newline>''"]
    by (simp add: ex_repoUrl ex_trim sval_def clone_args_def ex_info_def label_def ex_exec_def ex_world_def one_world_def)
  from a b c show ?thesis by blast
qed

subsection \<open>The clones by tag\<close>

text \<open>
  C6. When the clone at \<open>v<version>\<close> fails and the clone at the bare version fails
  too, the inner \<open>try\<close> passes on the error of the first clone, whatever the error of the
  second is; and when the host is not github or \<open>gitHead\<close> is absent, \<open>fetchGitSource\<close>
  rejects with that first error after exactly the two clones: no step of the sha
  fallback is issued.
\<close>

theorem fetchGitSource_clone_errors:
  assumes "dst \<noteq> []" "dst \<noteq> ''/''"
    and "fetchDetails w s = (Inr i, s1)"
    and "repository i = Some r" "rtype r = Some ''git''" "truthy (url r)"
    and "u = repoUrl (sval (url r))" "d = path_resolve w dst"
    and "execFile w ''git'' (clone_args u (''v'' @ version i) d) None = Inl e1"
    and "execFile w ''git'' (clone_args u (version i) d) None = Inl e2"
  shows "fst (cloneByTag w u i d s1) = Inl e1 \<and>
         (\<not> isGithub (url_parts (sval (url r))) \<or> \<not> truthy (gitHead i) \<longrightarrow>
            fetchGitSource w dst s =
              (Inl e1, s1\<lparr>trace := trace s1 @
                 [Exec ''git'' (clone_args u (''v'' @ version i) d) None,
                  Exec ''git'' (clone_args u (version i) d) None]\<rparr>))"
  using assms
  by (auto simp: fetchGitSource_def cloneByTag_def io_defs Let_def)

theorem fetchGitSource_clone_errors_witness:
  "fetchGitSource (one_world [''clone v1.0.0'', ''clone 1.0.0''] [] (Inr []) None None)
         ''/tmp/validate-0/git'' (loaded ex_validator) =
     (Inl (ExecError ''Command failed: clone v1.0.0'' (ExitCode 128) []),
      \<lparr>this = ex_validator\<lparr>v_details := Some (Single (ex_info None None))\<rparr>,
       trace = [Exec ''npm'' [''view'', ''-json'', ''pkg@latest''] None,
                Exec ''git'' (clone_args ''https://github.com/u/pkg.git'' ''v1.0.0'' ''/tmp/validate-0/git'') None,
                Exec ''git'' (clone_args ''https://github.com/u/pkg.git'' ''1.0.0'' ''/tmp/validate-0/git'') None],
       next_ref = 1, names = 0, detached = []\<rparr>)"
proof -
  let ?w = "one_world [''clone v1.0.0'', ''clone 1.0.0''] [] (Inr []) None None"
  let ?r = "\<lparr>rtype = Some ''git'', url = Some ''git+https://github.com/u/pkg.git''\<rparr>"
  let ?i = "ex_info None None"
  let ?u = "repoUrl (sval (url ?r))"
  let ?d = "path_resolve ?w ''/tmp/validate-0/git''"
  note w_defs = ex_info_def label_def ex_exec_def ex_world_def one_world_def
  have fd: "fetchDetails ?w (loaded ex_validator) = (Inr ?i, snd (fetchDetails ?w (loaded ex_validator)))"
    by (rule ex_fetchDetails) simp
  have s1: "snd (fetchDetails ?w (loaded ex_validator)) =
      \<lparr>this = ex_validator\<lparr>v_details := Some (Single ?i)\<rparr>,
       trace = [Exec ''npm'' [''view'', ''-json'', ''pkg@latest''] None], next_ref = 1, names = 0, detached = []\<rparr>"
    by (simp add: fetchDetails_def set_details_def io_defs ex_defs)
  have h1: "''/tmp/validate-0/git'' \<noteq> []" and h2: "''/tmp/validate-0/git'' \<noteq> ''/''" by simp_all
  have h4: "repository ?i = Some ?r" by (simp add: ex_info_def)
  have h5: "rtype ?r = Some ''git''" and h6: "truthy (url ?r)" by simp_all
  have h9: "execFile ?w ''git'' (clone_args ?u (''v'' @ version ?i) ?d) None =
              Inl (ExecError ''Command failed: clone v1.0.0'' (ExitCode 128) [])"
    by (simp add: sval_def ex_repoUrl clone_args_def w_defs)
  have h10: "execFile ?w ''git'' (clone_args ?u (version ?i) ?d) None =
              Inl (ExecError ''Command failed: clone 1.0.0'' (ExitCode 128) [])"
    by (simp add: sval_def ex_repoUrl clone_args_def w_defs)
  have g: "\<not> isGithub (url_parts (sval (url ?r))) \<or> \<not> truthy (gitHead ?i)"
    by (simp add: ex_info_def)
  from fetchGitSource_clone_errors [OF h1 h2 fd h4 h5 h6 refl refl h9 h10] g
  have "fetchGitSource ?w ''/tmp/validate-0/git'' (loaded ex_validator) =
          (Inl (ExecError ''Command failed: clone v1.0.0'' (ExitCode 128) []),
           (snd (fetchDetails ?w (loaded ex_validator)))\<lparr>trace := trace (snd (fetchDetails ?w (loaded ex_validator))) @
              [Exec ''git'' (clone_args ?u (''v'' @ version ?i) ?d) None,
               Exec ''git'' (clone_args ?u (version ?i) ?d) None]\<rparr>)"
    by blast
  moreover have "?u = ''https://github.com/u/pkg.git''" by (simp add: sval_def ex_repoUrl)
  moreover have "?d = ''/tmp/validate-0/git''" by (simp add: w_defs)
  moreover have "version ?i = ''1.0.0''" by (simp add: ex_info_def)
  ultimately show ?thesis
    by (simp add: s1)
qed

subsection \<open>FallbackBySha\<close>

lemma fallbackBySha_first_error:
  assumes "first_error
           [err_of (execFile w ''rm'' [''-rf'', d] None),
            fs_mkdir w d,
            err_of (execFile w ''git'' [''init''] (Some d)),
            err_of (execFile w ''git'' [''remote'', ''add'', ''origin'', u] (Some d)),
            err_of (execFile w ''git'' [''fetch'', ''--depth'', ''1'', ''origin'', sval (gitHead i)] (Some d)),
            err_of (execFile w ''git'' [''checkout'', ''FETCH_HEAD''] (Some d))] = Some e"
  shows "fst (fallbackBySha w u i d s) = Inl e"
proof -
  note defs = fallbackBySha_def io_defs err_of_def
  show ?thesis
  proof (cases "execFile w ''rm'' [''-rf'', d] None")
    case Inl with assms show ?thesis by (simp add: defs)
  next
    case a: Inr
    show ?thesis
    proof (cases "fs_mkdir w d")
      case Some with assms a show ?thesis by (simp add: defs)
    next
      case b: None
      show ?thesis
      proof (cases "execFile w ''git'' [''init''] (Some d)")
        case Inl with assms a b show ?thesis by (simp add: defs)
      next
        case c: Inr
        show ?thesis
        proof (cases "execFile w ''git'' [''remote'', ''add'', ''origin'', u] (Some d)")
          case Inl with assms a b c show ?thesis by (simp add: defs)
        next
          case d: Inr
          show ?thesis
          proof (cases "execFile w ''git'' [''fetch'', ''--depth'', ''1'', ''origin'', sval (gitHead i)] (Some d)")
            case Inl with assms a b c d show ?thesis by (simp add: defs)
          next
            case e: Inr
            show ?thesis
            proof (cases "execFile w ''git'' [''checkout'', ''FETCH_HEAD''] (Some d)")
              case Inl with assms a b c d e show ?thesis by (simp add: defs)
            next
              case Inr with assms a b c d e show ?thesis by (simp add: defs)
            qed
          qed
        qed
      qed
    qed
  qed
qed

lemma fetchGitSource_enters_fallback:
  assumes "dst \<noteq> []" "dst \<noteq> ''/''"
    and "fetchDetails w s = (Inr i, s1)"
    and "repository i = Some r" "rtype r = Some ''git''" "truthy (url r)"
    and "u = repoUrl (sval (url r))" "d = path_resolve w dst"
    and "(execFile w ''git'' (clone_args u (''v'' @ version i) d) None = Inl e1 \<and>
          execFile w ''git'' (clone_args u (version i) d) None = Inl e2) \<or>
         execFile w ''git'' [''rev-parse'', ''--verify'', ''HEAD''] (Some d) = Inl e3"
    and "isGithub (url_parts (sval (url r)))" "truthy (gitHead i)"
  shows "\<exists>s2. fetchGitSource w dst s = fallbackBySha w u i d s2"
proof (cases "execFile w ''git'' (clone_args u (''v'' @ version i) d) None")
  case (Inl a)
  show ?thesis
  proof (cases "execFile w ''git'' (clone_args u (version i) d) None")
    case Inl
    with assms \<open>execFile w ''git'' (clone_args u (''v'' @ version i) d) None = Inl a\<close> show ?thesis
      by (simp add: fetchGitSource_def cloneByTag_def io_defs Let_def; blast?)
  next
    case Inr
    with assms \<open>execFile w ''git'' (clone_args u (''v'' @ version i) d) None = Inl a\<close> show ?thesis
      by (simp add: fetchGitSource_def cloneByTag_def verifyHead_def io_defs Let_def; blast?)
  qed
next
  case Inr
  with assms show ?thesis
    by (simp add: fetchGitSource_def cloneByTag_def verifyHead_def io_defs Let_def; blast?)
qed

text \<open>
  C5, as amended. When the tag stage has failed (both clones, or \<open>rev-parse\<close>), the host
  is github and \<open>gitHead\<close> is present, the fallback runs its six steps in order; when
  one of them fails, \<open>fetchGitSource\<close> rejects with the error of the first failing
  step itself.
\<close>

theorem fetchGitSource_fallback_failure:
  assumes "dst \<noteq> []" "dst \<noteq> ''/''"
    and "fetchDetails w s = (Inr i, s1)"
    and "repository i = Some r" "rtype r = Some ''git''" "truthy (url r)"
    and "u = repoUrl (sval (url r))" "d = path_resolve w dst"
    and "(execFile w ''git'' (clone_args u (''v'' @ version i) d) None = Inl e1 \<and>
          execFile w ''git'' (clone_args u (version i) d) None = Inl e2) \<or>
         execFile w ''git'' [''rev-parse'', ''--verify'', ''HEAD''] (Some d) = Inl e3"
    and "isGithub (url_parts (sval (url r)))" "truthy (gitHead i)"
    and "first_error
           [err_of (execFile w ''rm'' [''-rf'', d] None),
            fs_mkdir w d,
            err_of (execFile w ''git'' [''init''] (Some d)),
            err_of (execFile w ''git'' [''remote'', ''add'', ''origin'', u] (Some d)),
            err_of (execFile w ''git'' [''fetch'', ''--depth'', ''1'', ''origin'', sval (gitHead i)] (Some d)),
            err_of (execFile w ''git'' [''checkout'', ''FETCH_HEAD''] (Some d))] = Some e"
  shows "fst (fetchGitSource w dst s) = Inl e"
proof -
  from fetchGitSource_enters_fallback [OF assms(1-11)]
  obtain s2 where "fetchGitSource w dst s = fallbackBySha w u i d s2" by blast
  with fallbackBySha_first_error [OF assms(12)] show ?thesis by simp
qed

theorem fetchGitSource_fallback_failure_witness:
  "fst (fetchGitSource (one_world [''clone v1.0.0'', ''clone 1.0.0'', ''git checkout''] [] (Inr []) None (Some ''abc123''))
         ''/tmp/validate-0/git'' (loaded ex_validator)) =
     Inl (ExecError ''Command failed: git checkout'' (ExitCode 128) [])"
proof -
  let ?w = "one_world [''clone v1.0.0'', ''clone 1.0.0'', ''git checkout''] [] (Inr []) None (Some ''abc123'')"
  let ?r = "\<lparr>rtype = Some ''git'', url = Some ''git+https://github.com/u/pkg.git''\<rparr>"
  have fd: "fetchDetails ?w (loaded ex_validator) =
     (Inr (ex_info None (Some ''abc123'')), snd (fetchDetails ?w (loaded ex_validator)))"
    by (rule ex_fetchDetails) simp
  show ?thesis
    by (rule fetchGitSource_fallback_failure [OF _ _ fd _ _ _ refl refl, where r = ?r
          and ?e1.0 = "ExecError ''Command failed: clone v1.0.0'' (ExitCode 128) []"
          and ?e2.0 = "ExecError ''Command failed: clone 1.0.0'' (ExitCode 128) []"])
       (simp_all add: ex_repoUrl ex_isGithub sval_def clone_args_def err_of_def
          ex_info_def label_def ex_exec_def ex_world_def one_world_def)
qed

text \<open>
  C5 as stated fails: with both clones and then \<open>git fetch\<close> failing, the caller gets
  the error of \<open>git fetch\<close>, not the error of the clone at \<open>v1.0.0\<close>.
\<close>

theorem fetchGitSource_fallback_counterexample:
  "execFile (one_world [''clone v1.0.0'', ''clone 1.0.0'', ''git fetch''] [] (Inr []) None (Some ''abc123''))
      ''git'' (clone_args ''https://github.com/u/pkg.git'' ''v1.0.0'' ''/tmp/validate-0/git'') None =
     Inl (ExecError ''Command failed: clone v1.0.0'' (ExitCode 128) []) \<and>
   fst (fetchGitSource (one_world [''clone v1.0.0'', ''clone 1.0.0'', ''git fetch''] [] (Inr []) None (Some ''abc123''))
         ''/tmp/validate-0/git'' (loaded ex_validator)) =
     Inl (ExecError ''Command failed: git fetch'' (ExitCode 128) []) \<and>
   fst (fetchGitSource (one_world [''clone v1.0.0'', ''clone 1.0.0'', ''git fetch''] [] (Inr []) None (Some ''abc123''))
         ''/tmp/validate-0/git'' (loaded ex_validator)) \<noteq>
     Inl (ExecError ''Command failed: clone v1.0.0'' (ExitCode 128) [])"
  by (simp add: fetchGitSource_def cloneByTag_def fallbackBySha_def fetchDetails_def set_details_def
        io_defs Let_def sval_def clone_args_def repoUrl_def url_parts_def isGithub_def ex_defs)

subsection \<open>Identity of Taint objects\<close>

lemma fetchDetails_next_ref: "next_ref (snd (fetchDetails w s)) = next_ref s"
  by (auto simp: fetchDetails_def set_details_def io_defs split: option.splits details.splits sum.splits if_splits)

lemma cloneByTag_next_ref: "next_ref (snd (cloneByTag w u i d s)) = next_ref s"
  by (auto simp: cloneByTag_def io_defs split: sum.splits)

lemma verifyHead_ref:
  "verifyHead w i d s = (Inr t, s') \<Longrightarrow> t = Taint_none \<or> ref t = next_ref s"
  by (auto simp: verifyHead_def io_defs Let_def split: sum.splits if_splits)

lemma fallbackBySha_ref:
  "fallbackBySha w u i d s = (Inr t, s') \<Longrightarrow> ref t = next_ref s"
  by (auto simp: fallbackBySha_def io_defs split: sum.splits option.splits)

lemma io_bind_InrE:
  "io_bind m f s = (Inr y, s') \<Longrightarrow> \<exists>x s1. m s = (Inr x, s1) \<and> f x s1 = (Inr y, s')"
  by (auto simp: io_bind_def split: prod.splits sum.splits)

lemma hoek_assert_Inr: "hoek_assert c msg s = (Inr x, s1) \<Longrightarrow> c \<and> s1 = s"
  by (auto simp: hoek_assert_def io_return_def io_throw_def split: if_splits)

lemma fetchGitSource_shape:
  assumes "fetchGitSource w dst s = (Inr t, s')"
  shows "\<exists>i s1 u d g. fetchDetails w s = (Inr i, s1) \<and>
           try_catch (io_bind (cloneByTag w u i d) (\<lambda>_. verifyHead w i d))
             (\<lambda>err. if g then io_throw err else fallbackBySha w u i d) s1 = (Inr t, s')"
  using assms unfolding fetchGitSource_def Let_def
  apply -
  apply (drule io_bind_InrE, elim exE conjE)
  apply (drule hoek_assert_Inr, elim conjE)
  apply (drule io_bind_InrE, elim exE conjE)
  apply (drule io_bind_InrE, elim exE conjE)
  apply (drule hoek_assert_Inr, elim conjE)
  apply (intro exI conjI)
   apply (simp, assumption)
  done

lemma fetchGitSource_ref:
  assumes "fetchGitSource w dst s = (Inr t, s')"
  shows "t = Taint_none \<or> ref t = next_ref s"
proof -
  from fetchGitSource_shape[OF assms] obtain i s1 u d g where fd: "fetchDetails w s = (Inr i, s1)"
    and body: "try_catch (io_bind (cloneByTag w u i d) (\<lambda>_. verifyHead w i d))
       (\<lambda>err. if g then io_throw err else fallbackBySha w u i d) s1 = (Inr t, s')"
    by blast
  have n1: "next_ref s1 = next_ref s" using fetchDetails_next_ref[of w s] fd by simp
  obtain rc sc where c: "cloneByTag w u i d s1 = (rc, sc)" by (cases "cloneByTag w u i d s1")
  have nc: "next_ref sc = next_ref s1" using cloneByTag_next_ref[of w u i d s1] c by simp
  show ?thesis
  proof (cases rc)
    case (Inl e)
    with body c have "fallbackBySha w u i d sc = (Inr t, s')"
      by (auto simp: try_catch_def io_bind_def io_throw_def split: if_splits)
    from fallbackBySha_ref[OF this] nc n1 show ?thesis by simp
  next
    case (Inr x)
    obtain rv sv where v: "verifyHead w i d sc = (rv, sv)" by (cases "verifyHead w i d sc")
    show ?thesis
    proof (cases rv)
      case (Inl e)
      with body c Inr v have "fallbackBySha w u i d sv = (Inr t, s')"
        by (auto simp: try_catch_def io_bind_def io_throw_def split: if_splits)
      from fallbackBySha_ref[OF this] have "ref t = next_ref sv" .
      moreover from v Inl have "next_ref sv = next_ref sc"
        by (auto simp: verifyHead_def io_defs Let_def split: sum.splits if_splits)
      ultimately show ?thesis using nc n1 by simp
    next
      case (Inr t')
      with body c \<open>rc = Inr x\<close> v have "t' = t" "sv = s'"
        by (auto simp: try_catch_def io_bind_def)
      with v Inr verifyHead_ref[of w i d sc t s'] nc n1 show ?thesis by simp
    qed
  qed
qed

text \<open>
  C10. \<open>clean\<close> compares the identity of a Taint with that of the one shared
  \<open>Taint.none\<close>, not its fields: \<open>t.clean()\<close> holds exactly when \<open>t\<close> is that
  instance; a Taint constructed separately with no reason and no details, in any state
  reached after the module was loaded, is not clean; and a Taint that \<open>fetchGitSource\<close>
  returns is either the shared instance or not clean.
\<close>

theorem taint_clean_identity:
  "(clean t \<longleftrightarrow> ref t = ref Taint_none) \<and>
   (ref Taint_none < next_ref s \<longrightarrow>
      (\<exists>t' s'. new_Taint None Undefined s = (Inr t', s') \<and>
               reason t' = reason Taint_none \<and> details t' = details Taint_none \<and> \<not> clean t')) \<and>
   (ref Taint_none < next_ref s \<and> fetchGitSource w dst s = (Inr g, s2) \<longrightarrow>
      g = Taint_none \<or> \<not> clean g)"
proof (intro conjI impI)
  show "clean t \<longleftrightarrow> ref t = ref Taint_none" by (simp add: clean_def)
next
  assume "ref Taint_none < next_ref s"
  then show "\<exists>t' s'. new_Taint None Undefined s = (Inr t', s') \<and>
               reason t' = reason Taint_none \<and> details t' = details Taint_none \<and> \<not> clean t'"
    by (simp add: new_Taint_def clean_def Taint_none_def)
next
  assume a: "ref Taint_none < next_ref s \<and> fetchGitSource w dst s = (Inr g, s2)"
  with fetchGitSource_ref[of w dst s g s2] show "g = Taint_none \<or> \<not> clean g"
    by (auto simp: clean_def)
qed

theorem taint_clean_identity_witness:
  "clean Taint_none \<and>
   (\<exists>t' s'. new_Taint None Undefined (loaded ex_validator) = (Inr t', s') \<and>
            reason t' = reason Taint_none \<and> details t' = details Taint_none \<and> \<not> clean t') \<and>
   fst (fetchGitSource (one_world [] ''def456\<newline>'' (Inr []) None (Some ''abc123''))
          ''/tmp/validate-0/git'' (loaded ex_validator)) =
     Inr \<lparr>ref = 1, reason = Some ''sha-mismatch'', details = ShaDetails (Some ''abc123'') ''def456''\<rparr> \<and>
   \<not> clean \<lparr>ref = 1, reason = Some ''sha-mismatch'', details = ShaDetails (Some ''abc123'') ''def456''\<rparr>"
proof -
  let ?w = "one_world [] ''def456\<newline>'' (Inr []) None (Some ''abc123'')"
  let ?g = "\<lparr>ref = 1, reason = Some ''sha-mismatch'', details = ShaDetails (Some ''abc123'') ''def456''\<rparr>"
  let ?s = "loaded ex_validator"
  have runf: "fst (fetchGitSource ?w ''/tmp/validate-0/git'' ?s) = Inr ?g"
    by (simp add: fetchGitSource_def cloneByTag_def verifyHead_def fetchDetails_def set_details_def
          repoUrl_def url_parts_def isGithub_def clone_args_def trim_def is_ws_def sval_def Let_def
          io_defs ex_defs)
  have run: "fetchGitSource ?w ''/tmp/validate-0/git'' ?s =
               (Inr ?g, snd (fetchGitSource ?w ''/tmp/validate-0/git'' ?s))"
    using runf by (metis prod.collapse)
  have live: "ref Taint_none < next_ref ?s" by (simp add: loaded_def)
  have ne: "?g \<noteq> Taint_none" by (simp add: Taint_none_def)
  note th = taint_clean_identity [of Taint_none ?s ?w "''/tmp/validate-0/git''" ?g
              "snd (fetchGitSource ?w ''/tmp/validate-0/git'' ?s)"]
  from th have "clean Taint_none" by simp
  moreover from th live have "\<exists>t' s'. new_Taint None Undefined ?s = (Inr t', s') \<and>
            reason t' = reason Taint_none \<and> details t' = details Taint_none \<and> \<not> clean t'" by blast
  moreover from th live run ne have "\<not> clean ?g" by blast
  ultimately show ?thesis using runf by simp
qed

section \<open>Properties of fetchPackageSource\<close>

lemma string_of_nat_0: "string_of_nat 0 = ''0''"
  by (simp add: string_of_nat.simps digit_def)

text \<open>
  C1, as amended. Once the download, the extraction and \<open>packageHash\<close> have succeeded,
  \<open>fetchPackageSource\<close> compares the hex digest of the downloaded bytes with the expected
  hash by exact string equality: it returns \<open>Taint.none\<close> when the two strings are
  identical and otherwise rejects with the error \<open>Bad package hash\<close>; it never returns a
  taint for a mismatch. The expected hash of a legacy \<open>shasum\<close> is that string as the
  registry gives it.
\<close>

theorem fetchPackageSource_digest:
  assumes "dst \<noteq> []" "dst \<noteq> ''/''"
    and "fetchDetails w s = (Inr i, s1)"
    and "dist i = Some dd" "truthy (tarball dd)"
    and "wreck_request w (sval (tarball dd)) = Inr res" "statusCode res = 200"
    and "fs_mkdir w (path_resolve w dst) = None"
    and "packageHash w i = Inr ph" "createHash w (alg ph) = Some hasher"
    and "ending res = End" "spawn_tar w (path_resolve w dst) (body res) = TarExit (Some 0)"
  shows "fst (fetchPackageSource w dst s) =
           (if hasher (body res) = hash ph then Inr Taint_none else Inl (Error ''Bad package hash'')) \<and>
         (\<not> truthy (integrity dd) \<longrightarrow> hash ph = sval (shasum dd))"
  using assms
  by (auto simp: fetchPackageSource_def packageHash_def io_defs Let_def fetchDone_def tarDone_def
           split: if_splits)

theorem fetchPackageSource_digest_witness:
  "fst (fetchPackageSource (one_world [] [] (Inr []) (Some ''da39a3ee5e6b4b0d3255bfef95601890afd80709'') None)
         ''/tmp/validate-0/package'' (loaded ex_validator)) = Inr Taint_none \<and>
   fst (fetchPackageSource (one_world [] [] (Inr []) (Some ''da39a3ee5e6b4b0d3255bfef95601890afd8070a'') None)
         ''/tmp/validate-0/package'' (loaded ex_validator)) = Inl (Error ''Bad package hash'')"
proof -
  let ?dst = "''/tmp/validate-0/package''"
  let ?res = "\<lparr>statusCode = 200, body = [], ending = End\<rparr>"
  note w_defs = ex_info_def label_def ex_exec_def ex_world_def one_world_def
  have h1: "?dst \<noteq> []" and h2: "?dst \<noteq> ''/''" by simp_all
  have a: "fst (fetchPackageSource (one_world [] [] (Inr []) (Some ''da39a3ee5e6b4b0d3255bfef95601890afd80709'') None)
         ?dst (loaded ex_validator)) = Inr Taint_none"
  proof -
    let ?sha = "Some ''da39a3ee5e6b4b0d3255bfef95601890afd80709''"
    let ?w = "one_world [] [] (Inr []) ?sha None"
    let ?dd = "\<lparr>integrity = None, shasum = ?sha, tarball = Some ''https://registry.example/pkg-1.0.0.tgz''\<rparr>"
    let ?ph = "\<lparr>alg = ''sha1'', hash = ''da39a3ee5e6b4b0d3255bfef95601890afd80709''\<rparr>"
    have fd: "fetchDetails ?w (loaded ex_validator) = (Inr (ex_info ?sha None), snd (fetchDetails ?w (loaded ex_validator)))"
      by (rule ex_fetchDetails) simp
    have h4: "dist (ex_info ?sha None) = Some ?dd" by (simp add: ex_info_def)
    have h5: "truthy (tarball ?dd)" by simp
    have h6: "wreck_request ?w (sval (tarball ?dd)) = Inr ?res" by (simp add: w_defs)
    have h7: "statusCode ?res = 200" by simp
    have h8: "fs_mkdir ?w (path_resolve ?w ?dst) = None" by (simp add: w_defs)
    have h9: "packageHash ?w (ex_info ?sha None) = Inr ?ph" by (simp add: packageHash_def sval_def ex_info_def)
    have h10: "createHash ?w (alg ?ph) = Some ex_sha1" by (simp add: w_defs)
    have h11: "ending ?res = End" by simp
    have h12: "spawn_tar ?w (path_resolve ?w ?dst) (body ?res) = TarExit (Some 0)" by (simp add: w_defs)
    from fetchPackageSource_digest [OF h1 h2 fd h4 h5 h6 h7 h8 h9 h10 h11 h12]
    show ?thesis by (simp add: ex_sha1_def)
  qed
  have b: "fst (fetchPackageSource (one_world [] [] (Inr []) (Some ''da39a3ee5e6b4b0d3255bfef95601890afd8070a'') None)
         ?dst (loaded ex_validator)) = Inl (Error ''Bad package hash'')"
  proof -
    let ?sha = "Some ''da39a3ee5e6b4b0d3255bfef95601890afd8070a''"
    let ?w = "one_world [] [] (Inr []) ?sha None"
    let ?dd = "\<lparr>integrity = None, shasum = ?sha, tarball = Some ''https://registry.example/pkg-1.0.0.tgz''\<rparr>"
    let ?ph = "\<lparr>alg = ''sha1'', hash = ''da39a3ee5e6b4b0d3255bfef95601890afd8070a''\<rparr>"
    have fd: "fetchDetails ?w (loaded ex_validator) = (Inr (ex_info ?sha None), snd (fetchDetails ?w (loaded ex_validator)))"
      by (rule ex_fetchDetails) simp
    have h4: "dist (ex_info ?sha None) = Some ?dd" by (simp add: ex_info_def)
    have h5: "truthy (tarball ?dd)" by simp
    have h6: "wreck_request ?w (sval (tarball ?dd)) = Inr ?res" by (simp add: w_defs)
    have h7: "statusCode ?res = 200" by simp
    have h8: "fs_mkdir ?w (path_resolve ?w ?dst) = None" by (simp add: w_defs)
    have h9: "packageHash ?w (ex_info ?sha None) = Inr ?ph" by (simp add: packageHash_def sval_def ex_info_def)
    have h10: "createHash ?w (alg ?ph) = Some ex_sha1" by (simp add: w_defs)
    have h11: "ending ?res = End" by simp
    have h12: "spawn_tar ?w (path_resolve ?w ?dst) (body ?res) = TarExit (Some 0)" by (simp add: w_defs)
    from fetchPackageSource_digest [OF h1 h2 fd h4 h5 h6 h7 h8 h9 h10 h11 h12]
    show ?thesis by (simp add: ex_sha1_def)
  qed
  from a b show ?thesis by simp
qed

text \<open>
  C1 as stated fails: the digest of the empty download and an upper-case \<open>shasum\<close> are
  equal as hexadecimal numbers up to letter case, and the check rejects.
\<close>

theorem fetchPackageSource_case_counterexample:
  "hex_equal (ex_sha1 []) ''DA39A3EE5E6B4B0D3255BFEF95601890AFD80709'' \<and>
   fst (fetchPackageSource (one_world [] [] (Inr []) (Some ''DA39A3EE5E6B4B0D3255BFEF95601890AFD80709'') None)
         ''/tmp/validate-0/package'' (loaded ex_validator)) = Inl (Error ''Bad package hash'')"
  by (simp add: hex_equal_def hex_lower_def fetchPackageSource_def packageHash_def fetchDetails_def
        set_details_def io_defs Let_def fetchDone_def tarDone_def sval_def ex_defs)

section \<open>Properties of check\<close>

text \<open>
  C3. The code at a failing input: \<open>diff\<close> exits with status 1 and reports a file present
  in the package only. \<open>check\<close> rejects with \<open>ValidationError('Mismatch')\<close> whose details
  are \<open>pkg\<close> (undefined), \<open>version\<close> and the filtered diff text. The Taint passed to the
  constructor is not in the details: the error is the same when the git checkout was
  tainted \<open>sha-missing\<close> and when it was clean.
\<close>

theorem check_mismatch_drops_taint:
  "fst (check (one_world [] ''abc123\<newline>'' mismatch_out (Some ''da39a3ee5e6b4b0d3255bfef95601890afd80709'') None)
         (loaded ex_validator)) =
     Inl (ValidationError ''Mismatch''
            \<lparr>e_pkg = None, e_version = Some ''latest'', e_diff = Some ''Only in package: extra.js''\<rparr>) \<and>
   fst (check (one_world [] ''abc123\<newline>'' mismatch_out (Some ''da39a3ee5e6b4b0d3255bfef95601890afd80709'') (Some ''abc123''))
         (loaded ex_validator)) =
     Inl (ValidationError ''Mismatch''
            \<lparr>e_pkg = None, e_version = Some ''latest'', e_diff = Some ''Only in package: extra.js''\<rparr>) \<and>
   fst (fetchGitSource (one_world [] ''abc123\<newline>'' mismatch_out (Some ''da39a3ee5e6b4b0d3255bfef95601890afd80709'') None)
         ''/tmp/validate-0/git'' (loaded ex_validator)) =
     Inr \<lparr>ref = 1, reason = Some ''sha-missing'', details = ShaDetails None ''abc123''\<rparr> \<and>
   fst (fetchGitSource (one_world [] ''abc123\<newline>'' mismatch_out (Some ''da39a3ee5e6b4b0d3255bfef95601890afd80709'') (Some ''abc123''))
         ''/tmp/validate-0/git'' (loaded ex_validator)) = Inr Taint_none"
  by (simp add: check_defs ex_defs mismatch_out_def string_of_nat_0)

theorem check_mismatch_drops_taint_witness:
  "fst (check (one_world [] ''abc123\<newline>'' mismatch_out (Some ''da39a3ee5e6b4b0d3255bfef95601890afd80709'') None)
         (loaded ex_validator)) =
   fst (check (one_world [] ''abc123\<newline>'' mismatch_out (Some ''da39a3ee5e6b4b0d3255bfef95601890afd80709'') (Some ''abc123''))
         (loaded ex_validator))"
  using check_mismatch_drops_taint by simp

subsection \<open>Trimming and joining lines\<close>









subsection \<open>The outcome of the diff\<close>





















subsection \<open>The scratch directory\<close>

lemma advances_return: "advances (io_return x)"
  by (simp add: advances_def io_return_def)

lemma advances_throw: "advances (io_throw e)"
  by (simp add: advances_def io_throw_def)

lemma advances_bind:
  assumes "advances m" "\<And>x. advances (f x)"
  shows "advances (io_bind m f)"
  unfolding advances_def
proof
  fix s
  obtain r s1 where m: "m s = (r, s1)" by (cases "m s")
  from assms(1) m have 1: "prefix (trace s) (trace s1)" "names s1 = names s"
    by (auto simp: advances_def dest: spec[of _ s])
  show "prefix (trace s) (trace (snd (io_bind m f s))) \<and> names (snd (io_bind m f s)) = names s"
  proof (cases r)
    case (Inl e)
    with m 1 show ?thesis by (simp add: io_bind_def)
  next
    case (Inr x)
    from assms(2)[of x] have "prefix (trace s1) (trace (snd (f x s1)))" "names (snd (f x s1)) = names s1"
      by (auto simp: advances_def)
    with m 1 Inr show ?thesis by (auto simp: io_bind_def intro: prefix_order.trans)
  qed
qed

lemma advances_catch:
  assumes "advances m" "\<And>e. advances (h e)"
  shows "advances (try_catch m h)"
  unfolding advances_def
proof
  fix s
  obtain r s1 where m: "m s = (r, s1)" by (cases "m s")
  from assms(1) m have 1: "prefix (trace s) (trace s1)" "names s1 = names s"
    by (auto simp: advances_def dest: spec[of _ s])
  show "prefix (trace s) (trace (snd (try_catch m h s))) \<and> names (snd (try_catch m h s)) = names s"
  proof (cases r)
    case (Inr x)
    with m 1 show ?thesis by (simp add: try_catch_def)
  next
    case (Inl e)
    from assms(2)[of e] have "prefix (trace s1) (trace (snd (h e s1)))" "names (snd (h e s1)) = names s1"
      by (auto simp: advances_def)
    with m 1 Inl show ?thesis by (auto simp: try_catch_def intro: prefix_order.trans)
  qed
qed

lemma advances_all:
  assumes "advances a" "advances b"
  shows "advances (promise_all f k a b)"
  unfolding advances_def
proof
  fix s
  obtain ra s1 where a: "a s = (ra, s1)" by (cases "a s")
  obtain rb s2 where b: "b s1 = (rb, s2)" by (cases "b s1")
  from assms(1) a have 1: "prefix (trace s) (trace s1)" "names s1 = names s"
    by (auto simp: advances_def dest: spec[of _ s])
  from assms(2) b have 2: "prefix (trace s1) (trace s2)" "names s2 = names s1"
    by (auto simp: advances_def dest: spec[of _ s1])
  from 1 2 have 3: "prefix (trace s) (trace s2)" by (auto intro: prefix_order.trans)
  have "snd (promise_all f k a b s) = s2 \<or>
        (\<exists>before after. snd (promise_all f k a b s) = rejected s before after s2)"
    using a b by (cases ra; cases rb) (auto simp: promise_all_def Let_def)
  with 1 2 3 show "prefix (trace s) (trace (snd (promise_all f k a b s))) \<and>
                 names (snd (promise_all f k a b s)) = names s"
    by (auto simp: rejected_def)
qed

lemma advances_exec: "advances (exec w c args cwd)"
  by (simp add: advances_def exec_def)

lemma advances_mkdir: "advances (mkdir w p)"
  by (simp add: advances_def mkdir_def)

lemma advances_emit: "advances (emit ev)"
  by (simp add: advances_def emit_def)

lemma advances_new_Taint: "advances (new_Taint r d)"
  by (simp add: advances_def new_Taint_def)

lemma advances_set_details: "advances (set_details d)"
  by (simp add: advances_def set_details_def)

lemma advances_assert: "advances (hoek_assert c msg)"
  by (simp add: hoek_assert_def advances_return advances_throw)

lemma advances_pure: "advances (\<lambda>s. (g s, s))"
  by (simp add: advances_def)

lemma advances_append: "advances (\<lambda>s. (r, s\<lparr>trace := trace s @ t\<rparr>))"
  by (simp add: advances_def)

lemmas advances_intros = advances_return advances_throw advances_bind advances_catch advances_all
  advances_exec advances_mkdir advances_emit advances_new_Taint advances_set_details advances_assert
  advances_pure advances_append

lemma advances_fetchDetails: "advances (fetchDetails w)"
  unfolding advances_def fetchDetails_def
  by (auto simp: io_defs set_details_def split: sum.splits option.splits details.splits)

lemma advances_fetchPackageSource: "advances (fetchPackageSource w dst)"
  unfolding fetchPackageSource_def Let_def
  by (auto intro!: advances_intros advances_fetchDetails split: option.splits sum.splits)

lemma advances_fetchGitSource: "advances (fetchGitSource w dst)"
  unfolding fetchGitSource_def Let_def cloneByTag_def verifyHead_def fallbackBySha_def
  by (auto intro!: advances_intros advances_fetchDetails)

lemma advances_diffReconcile: "advances (diffReconcile w tmpDir git)"
  unfolding diffReconcile_def Let_def
  by (auto intro!: advances_intros split: error.splits)

lemma advances_check_body:
  "advances (io_bind (fetchDetails w) (\<lambda>_.
        io_bind (promise_all (package_rejects_first w) (overlap w)
                   (fetchPackageSource w pkgPath) (fetchGitSource w gitPath)) (\<lambda>(_, git).
        io_bind (if \<not> clean git then emit (ConsoleError (advisory w git)) else io_return ()) (\<lambda>_.
        diffReconcile w tmpDir git))))"
  by (auto intro!: advances_intros advances_fetchDetails advances_fetchPackageSource
        advances_fetchGitSource advances_diffReconcile)

lemma check_issues_rm:
  "names (snd (check w s)) = Suc (names s) \<and>
   (\<forall>e. fs_mkdir w (uniqueFilename w (tmpdir w) (names s)) = Some e \<longrightarrow>
      check w s = (Inl e, s\<lparr>names := Suc (names s),
                              trace := trace s @ [Mkdir (uniqueFilename w (tmpdir w) (names s))]\<rparr>)) \<and>
   (fs_mkdir w (uniqueFilename w (tmpdir w) (names s)) = None \<longrightarrow>
      (\<exists>mid. trace (snd (check w s)) =
              trace s @ [Mkdir (uniqueFilename w (tmpdir w) (names s))] @ mid @
              [Exec ''rm'' [''-rf'', uniqueFilename w (tmpdir w) (names s)] None]) \<and>
      (\<forall>e. execFile w ''rm'' [''-rf'', uniqueFilename w (tmpdir w) (names s)] None = Inl e \<longrightarrow>
           fst (check w s) = Inl e))"
proof -
  let ?tmp = "uniqueFilename w (tmpdir w) (names s)"
  let ?s1 = "s\<lparr>names := Suc (names s), trace := trace s @ [Mkdir ?tmp]\<rparr>"
  let ?body = "io_bind (fetchDetails w) (\<lambda>_.
        io_bind (promise_all (package_rejects_first w) (overlap w)
                   (fetchPackageSource w (path_join w ?tmp ''package''))
                   (fetchGitSource w (path_join w ?tmp ''git''))) (\<lambda>(_, git).
        io_bind (if \<not> clean git then emit (ConsoleError (advisory w git)) else io_return ()) (\<lambda>_.
        diffReconcile w ?tmp git)))"
  obtain r s2 where body: "?body ?s1 = (r, s2)" by (cases "?body ?s1")
  from advances_check_body[of w "path_join w ?tmp ''package''" "path_join w ?tmp ''git''" ?tmp] body
  have adv: "prefix (trace ?s1) (trace s2)" "names s2 = names ?s1"
    by (auto simp: advances_def dest: spec[of _ ?s1])
  then obtain mid where mid: "trace s2 = trace s @ [Mkdir ?tmp] @ mid"
    by (auto simp: prefix_def)
  have fail: "fs_mkdir w ?tmp = Some e \<Longrightarrow> check w s = (Inl e, ?s1)" for e
    by (simp add: check_def hoek_uniqueFilename_def mkdir_def io_bind_def Let_def)
  have ok: "fs_mkdir w ?tmp = None \<Longrightarrow>
      check w s = (case execFile w ''rm'' [''-rf'', ?tmp] None of
                     Inl e \<Rightarrow> (Inl e, s2\<lparr>trace := trace s2 @ [Exec ''rm'' [''-rf'', ?tmp] None]\<rparr>)
                   | Inr x \<Rightarrow> (r, s2\<lparr>trace := trace s2 @ [Exec ''rm'' [''-rf'', ?tmp] None]\<rparr>))"
    using body
    by (simp add: check_def hoek_uniqueFilename_def mkdir_def io_bind_def[of "\<lambda>s. _ s"] try_finally_def exec_def Let_def
          split: sum.splits)
  show ?thesis
  proof (cases "fs_mkdir w ?tmp")
    case (Some e)
    with fail[of e] show ?thesis by simp
  next
    case None
    from ok[OF None] adv mid show ?thesis
      using None by (auto split: sum.splits)
  qed
qed

lemma string_of_nat_numeral:
  "string_of_nat (numeral k) =
     (if (numeral k :: nat) < 10 then [digit (numeral k)]
      else string_of_nat (numeral k div 10) @ [digit (numeral k mod 10)])"
  by (rule string_of_nat.simps)

lemma string_of_nat_digit: "n < 10 \<Longrightarrow> string_of_nat n = [digit n]"
  by (simp add: string_of_nat.simps)

text \<open>
  C9. The code at a failing input: the registry answers the request for the tarball with
  status 404 while the clone by tag is in flight. \<open>fetchPackageSource\<close> rejects,
  \<open>Promise.all\<close> rejects with it, and the \<open>finally\<close> block issues \<open>rm -rf\<close> on the
  scratch directory, the last call in the trace of \<open>check\<close>. \<open>fetchGitSource\<close> is not
  stopped: its \<open>git rev-parse\<close>, with the \<open>git\<close> directory inside the scratch directory as
  working directory, is issued after \<open>check\<close> has settled. The removal runs while the
  other branch still works in the directory.
\<close>

theorem check_abandons_branch:
  "fst (check w404 (loaded ex_validator)) = Inl (Error ''Bad server response: 404'') \<and>
   trace (snd (check w404 (loaded ex_validator))) =
     [Mkdir ''/tmp/validate-0'',
      Exec ''npm'' [''view'', ''-json'', ''pkg@latest''] None,
      Request ''https://registry.example/pkg-1.0.0.tgz'',
      Exec ''git'' (clone_args ''https://github.com/u/pkg.git'' ''v1.0.0'' ''/tmp/validate-0/git'') None,
      Exec ''rm'' [''-rf'', ''/tmp/validate-0''] None] \<and>
   detached (snd (check w404 (loaded ex_validator))) =
     [Exec ''git'' [''rev-parse'', ''--verify'', ''HEAD''] (Some ''/tmp/validate-0/git'')]"
  by (simp add: w404_def check_defs rejected_def string_of_int_def string_of_nat_numeral
        string_of_nat_digit digit_def ex_defs)

theorem check_abandons_branch_witness:
  "detached (snd (check w404 (loaded ex_validator))) \<noteq> [] \<and>
   last (trace (snd (check w404 (loaded ex_validator)))) = Exec ''rm'' [''-rf'', ''/tmp/validate-0''] None"
  using check_abandons_branch by simp

section \<open>Properties of the dependency walk\<close>

subsection \<open>What a walk preserves\<close>

lemma log_fail_results [simp]: "results (log_fail e ws) = results ws"
  by (simp add: log_fail_def console_log_def Let_def split: error.splits)

lemma log_fail_checked [simp]: "checked (log_fail e ws) = checked ws"
  by (simp add: log_fail_def console_log_def Let_def split: error.splits)

lemma validatePkg_hit:
  "results ws (pkg @ ''@'' @ ver) = Some r \<Longrightarrow>
     validatePkg w pkg ver loose ws = (\<lparr>r_result = r, r_error = None, r_info = None\<rparr>, ws)"
  by (simp add: validatePkg_def)




lemma for_deps_preserves:
  assumes "\<And>d sp ws. P ws \<Longrightarrow> P (snd (call d sp ws))" "P ws"
  shows "P (snd (for_deps w call ds t ws))"
  using assms(2)
proof (induction ds arbitrary: t ws)
  case Nil
  then show ?case by simp
next
  case (Cons a ds)
  obtain d sp where a: "a = (d, sp)" by (cases a)
  obtain r ws' where c: "call d sp ws = (r, ws')" by (cases "call d sp ws")
  from assms(1)[OF Cons.prems, of d sp] c have P': "P ws'" by simp
  show ?case
    using Cons.prems P' Cons.IH[OF P'] a c
    by (auto split: option.splits sum.splits)
qed

lemma validate_preserves:
  assumes vp: "\<And>pkg ver loose ws. P ws \<Longrightarrow> P (snd (validatePkg w pkg ver loose ws))"
    and lf: "\<And>e ws. P ws \<Longrightarrow> P (log_fail e ws)"
  shows "P ws \<Longrightarrow> P (snd (validate n w pkg ver loose recursive ws))"
proof (induction n arbitrary: pkg ver loose ws)
  case 0
  then show ?case by simp
next
  case (Suc n)
  obtain r ws1 where v: "validatePkg w pkg ver loose ws = (r, ws1)" by (cases "validatePkg w pkg ver loose ws")
  from vp[OF Suc.prems, of pkg ver loose] v have P1: "P ws1" by simp
  define ws2 where "ws2 = (case r_error r of None \<Rightarrow> ws1 | Some e \<Rightarrow> log_fail e ws1)"
  have P2: "P ws2" using P1 lf by (simp add: ws2_def split: option.splits)
  have fd: "P (snd (for_deps w (\<lambda>dep spec. validate n w dep spec True recursive) deps t ws2))" for deps t
    by (rule for_deps_preserves[where P = P, OF _ P2]) (rule Suc.IH)
  have fd': "for_deps w (\<lambda>dep spec. validate n w dep spec True recursive) deps t ws2 = (a, b) \<Longrightarrow> P b"
    for deps t a b using fd[of deps t] by simp
  show ?case
    using v P2
    by (auto simp: Let_def ws2_def[symmetric] split: option.splits prod.splits sum.splits intro: fd')
qed



subsection \<open>The walk over a finite registry ends\<close>




lemma validatePkg_miss:
  "results ws (pkg @ ''@'' @ ver) = None \<Longrightarrow>
     validatePkg w pkg ver loose ws =
       attempt w pkg ver loose (pkg @ ''@'' @ ver) (memo_set (pkg @ ''@'' @ ver) None ws)"
  by (simp add: validatePkg_def Let_def)





subsection \<open>The order of the events of a walk\<close>

lemma check_trace: "prefix (trace s) (trace (snd (check w s)))"
proof (cases "fs_mkdir w (uniqueFilename w (tmpdir w) (names s))")
  case None
  with check_issues_rm[of w s] show ?thesis by (auto simp: prefix_def)
next
  case (Some e)
  with check_issues_rm[of w s] show ?thesis by (auto simp: prefix_def)
qed

lemma fetchDetails_trace: "prefix (trace s) (trace (snd (fetchDetails w s)))"
  using advances_fetchDetails[of w] by (simp add: advances_def)

lemma new_Validator_state: "snd (new_Validator pkg ver loose s) = s"
  by (simp add: new_Validator_def io_defs)

lemma attempt_trace:
  "prefix (trace (lib ws1)) (trace (lib (snd (attempt w pkg ver loose qk ws1))))"
proof -
  obtain rv s1 where nv: "new_Validator pkg ver loose (lib ws1) = (rv, s1)"
    by (cases "new_Validator pkg ver loose (lib ws1)")
  with new_Validator_state[of pkg ver loose "lib ws1"] have s1: "s1 = lib ws1" by simp
  show ?thesis
  proof (cases rv)
    case (Inl e)
    with nv s1 show ?thesis by (simp add: attempt_def)
  next
    case (Inr v)
    obtain rf s2 where fd: "fetchDetails w (s1\<lparr>this := v\<rparr>) = (rf, s2)"
      by (cases "fetchDetails w (s1\<lparr>this := v\<rparr>)")
    with fetchDetails_trace[of "s1\<lparr>this := v\<rparr>" w] s1 have p2: "prefix (trace (lib ws1)) (trace s2)" by simp
    show ?thesis
    proof (cases rf)
      case (Inl e)
      with nv Inr fd p2 show ?thesis by (simp add: attempt_def)
    next
      case i: (Inr i)
      show ?thesis
      proof (cases "results ws1 (pkg @ ''@'' @ version i)")
        case (Some r)
        with nv Inr fd i p2 show ?thesis by (simp add: attempt_def)
      next
        case None
        let ?sc = "s2\<lparr>trace := trace s2 @ [MemoSet (pkg @ ''@'' @ version i) None,
                     ConsoleLog ('' * Validating package: '' @ sval (name i) @ ''@'' @ version i)]\<rparr>"
        obtain rc s3 where ck: "check w ?sc = (rc, s3)" by (cases "check w ?sc")
        with check_trace[of ?sc w] have "prefix (trace ?sc) (trace s3)" by simp
        then have "prefix (trace s2) (trace s3)" by (auto simp: prefix_def)
        with p2 have p3: "prefix (trace (lib ws1)) (trace s3)" by (rule prefix_order.trans)
        then have p4: "prefix (trace (lib ws1)) (trace s3 @ more)" for more
          by (auto simp: prefix_def)
        from nv Inr fd i None ck p3 p4 show ?thesis
          by (cases rc) (simp_all add: attempt_def Let_def console_log_def memo_set_def)
      qed
    qed
  qed
qed

lemma validatePkg_trace:
  "prefix (trace (lib ws)) (trace (lib (snd (validatePkg w pkg ver loose ws))))"
proof (cases "results ws (pkg @ ''@'' @ ver)")
  case (Some r)
  then show ?thesis by (simp add: validatePkg_hit)
next
  case None
  from attempt_trace[of "memo_set (pkg @ ''@'' @ ver) None ws" w pkg ver loose "pkg @ ''@'' @ ver"]
  show ?thesis by (auto simp: validatePkg_miss[OF None] memo_set_def prefix_def)
qed

lemma log_fail_trace: "prefix (trace (lib ws)) (trace (lib (log_fail e ws)))"
  by (auto simp: log_fail_def console_log_def Let_def prefix_def split: error.splits)

lemma validate_Suc_preserves:
  assumes vp: "\<And>pkg ver loose ws. P ws \<Longrightarrow> P (snd (validatePkg w pkg ver loose ws))"
    and lf: "\<And>e ws. P ws \<Longrightarrow> P (log_fail e ws)"
    and first: "P (snd (validatePkg w pkg ver loose ws))"
  shows "P (snd (validate (Suc n) w pkg ver loose recursive ws))"
proof -
  obtain r ws1 where v: "validatePkg w pkg ver loose ws = (r, ws1)" by (cases "validatePkg w pkg ver loose ws")
  with first have P1: "P ws1" by simp
  define ws2 where "ws2 = (case r_error r of None \<Rightarrow> ws1 | Some e \<Rightarrow> log_fail e ws1)"
  have P2: "P ws2" using P1 lf by (simp add: ws2_def split: option.splits)
  have fd: "P (snd (for_deps w (\<lambda>dep spec. validate n w dep spec True recursive) deps t ws2))" for deps t
    by (rule for_deps_preserves[where P = P, OF _ P2]) (rule validate_preserves[OF vp lf])
  have fd': "for_deps w (\<lambda>dep spec. validate n w dep spec True recursive) deps t ws2 = (a, b) \<Longrightarrow> P b"
    for deps t a b using fd[of deps t] by simp
  show ?thesis
    using v P2
    by (auto simp: Let_def ws2_def[symmetric] split: option.splits prod.splits sum.splits intro: fd')
qed

lemma validate_marks_first:
  assumes "results ws (pkg @ ''@'' @ ver) = None"
  shows "\<exists>rest. trace (lib (snd (validate (Suc n) w pkg ver loose recursive ws))) =
                  trace (lib ws) @ MemoSet (pkg @ ''@'' @ ver) None # rest"
proof -
  let ?T = "trace (lib ws) @ [MemoSet (pkg @ ''@'' @ ver) None]"
  let ?P = "\<lambda>x. prefix ?T (trace (lib x))"
  have "?P (snd (validate (Suc n) w pkg ver loose recursive ws))"
  proof (rule validate_Suc_preserves[where P = ?P])
    show "?P (snd (validatePkg w p v l x))" if "?P x" for p v l x
      using that validatePkg_trace[of x w p v l] by (rule prefix_order.trans)
    show "?P (log_fail e x)" if "?P x" for e x
      using that log_fail_trace[of x e] by (rule prefix_order.trans)
    from attempt_trace[of "memo_set (pkg @ ''@'' @ ver) None ws" w pkg ver loose "pkg @ ''@'' @ ver"]
    show "?P (snd (validatePkg w pkg ver loose ws))"
      by (simp add: validatePkg_miss[OF assms] memo_set_def)
  qed
  then show ?thesis by (auto simp: prefix_def)
qed

lemma validatePkg_error_pending:
  assumes "results ws (pkg @ ''@'' @ ver) = None"
    and "r_error (fst (validatePkg w pkg ver loose ws)) = Some e"
  shows "results (snd (validatePkg w pkg ver loose ws)) (pkg @ ''@'' @ ver) = Some None"
  using assms
  by (auto simp: validatePkg_miss attempt_def memo_set_def Let_def console_log_def
           split: option.splits prod.splits sum.splits)

lemma validatePkg_check_outcome:
  assumes "results ws (pkg @ ''@'' @ ver) = None" "pkg \<noteq> []" "ver \<noteq> []"
    and "fetchDetails w ((lib ws)\<lparr>trace := trace (lib ws) @ [MemoSet (pkg @ ''@'' @ ver) None],
            this := \<lparr>v_package = pkg, v_version = ver, v_loose = loose, v_details = None\<rparr>\<rparr>) = (Inr i, s2)"
    and "version i \<noteq> ver" "results ws (pkg @ ''@'' @ version i) = None"
    and "check w (s2\<lparr>trace := trace s2 @ [MemoSet (pkg @ ''@'' @ version i) None,
            ConsoleLog ('' * Validating package: '' @ sval (name i) @ ''@'' @ version i)]\<rparr>) = (rc, s3)"
  shows "case rc of
           Inr t \<Rightarrow> fst (validatePkg w pkg ver loose ws) = \<lparr>r_result = Some t, r_error = None, r_info = Some i\<rparr> \<and>
                    results (snd (validatePkg w pkg ver loose ws)) (pkg @ ''@'' @ ver) = Some (Some t) \<and>
                    results (snd (validatePkg w pkg ver loose ws)) (pkg @ ''@'' @ version i) = Some (Some t)
         | Inl e \<Rightarrow> fst (validatePkg w pkg ver loose ws) = \<lparr>r_result = None, r_error = Some e, r_info = Some i\<rparr> \<and>
                    results (snd (validatePkg w pkg ver loose ws)) (pkg @ ''@'' @ ver) = Some None"
  using assms
  by (cases rc)
     (simp_all add: validatePkg_miss attempt_def memo_set_def new_Validator_def io_defs Let_def console_log_def)

subsection \<open>Hits and first visits\<close>









lemma validatePkg_check_trace:
  assumes "results ws (pkg @ ''@'' @ ver) = None" "pkg \<noteq> []" "ver \<noteq> []"
    and fd: "fetchDetails w ((lib ws)\<lparr>trace := trace (lib ws) @ [MemoSet (pkg @ ''@'' @ ver) None],
            this := \<lparr>v_package = pkg, v_version = ver, v_loose = loose, v_details = None\<rparr>\<rparr>) = (Inr i, s2)"
    and "version i \<noteq> ver" "results ws (pkg @ ''@'' @ version i) = None"
    and ck: "check w (s2\<lparr>trace := trace s2 @ [MemoSet (pkg @ ''@'' @ version i) None,
            ConsoleLog ('' * Validating package: '' @ sval (name i) @ ''@'' @ version i)]\<rparr>) = (rc, s3)"
  shows "\<exists>t1 t2. trace (lib (snd (validatePkg w pkg ver loose ws))) =
            trace (lib ws) @ [MemoSet (pkg @ ''@'' @ ver) None] @ t1 @
            [MemoSet (pkg @ ''@'' @ version i) None,
             ConsoleLog ('' * Validating package: '' @ sval (name i) @ ''@'' @ version i)] @ t2 @
            (case rc of Inr t \<Rightarrow> [MemoSet (pkg @ ''@'' @ version i) (Some t), MemoSet (pkg @ ''@'' @ ver) (Some t)]
                      | Inl e \<Rightarrow> []) \<and>
          trace s2 = trace (lib ws) @ [MemoSet (pkg @ ''@'' @ ver) None] @ t1 \<and>
          trace s3 = trace s2 @ [MemoSet (pkg @ ''@'' @ version i) None,
             ConsoleLog ('' * Validating package: '' @ sval (name i) @ ''@'' @ version i)] @ t2"
proof -
  let ?s = "(lib ws)\<lparr>trace := trace (lib ws) @ [MemoSet (pkg @ ''@'' @ ver) None],
            this := \<lparr>v_package = pkg, v_version = ver, v_loose = loose, v_details = None\<rparr>\<rparr>"
  let ?sc = "s2\<lparr>trace := trace s2 @ [MemoSet (pkg @ ''@'' @ version i) None,
            ConsoleLog ('' * Validating package: '' @ sval (name i) @ ''@'' @ version i)]\<rparr>"
  from fetchDetails_trace[of ?s w] fd obtain t1 where
    t1: "trace s2 = trace (lib ws) @ [MemoSet (pkg @ ''@'' @ ver) None] @ t1"
    by (auto simp: prefix_def)
  from check_trace[of ?sc w] ck obtain t2 where
    t2: "trace s3 = trace s2 @ [MemoSet (pkg @ ''@'' @ version i) None,
             ConsoleLog ('' * Validating package: '' @ sval (name i) @ ''@'' @ version i)] @ t2"
    by (auto simp: prefix_def)
  have "trace (lib (snd (validatePkg w pkg ver loose ws))) =
          trace s3 @ (case rc of Inr t \<Rightarrow> [MemoSet (pkg @ ''@'' @ version i) (Some t), MemoSet (pkg @ ''@'' @ ver) (Some t)]
                      | Inl e \<Rightarrow> [])"
    using assms
    by (cases rc)
       (simp_all add: validatePkg_miss attempt_def memo_set_def new_Validator_def io_defs Let_def console_log_def)
  with t1 t2 show ?thesis by simp
qed

subsection \<open>The query key\<close>

text \<open>
  C8, as amended. For a query whose key is not in the Map, \<open>results.set(queryKey,
  undefined)\<close> is the first thing \<open>validate\<close> does: every other event of the call (the
  registry lookup, \<open>check\<close>, the logging, the recursion into the dependencies) comes
  after it. When the attempt ends with an error the key still holds \<open>undefined\<close>. When
  the registry lookup gives details of a version that is not the specifier and not yet
  in the Map, \<open>check\<close> runs after the version key has been marked too; according to what
  \<open>check\<close> settles with, \<open>validatePkg\<close> returns its Taint and stores it under the
  version key and the query key, last, or returns its error and leaves the query key
  at \<open>undefined\<close>.
\<close>

theorem validatePkg_marks_pending:
  "results ws (pkg @ ''@'' @ ver) = None \<longrightarrow>
     (\<exists>rest. trace (lib (snd (validate (Suc n) w pkg ver loose recursive ws))) =
                trace (lib ws) @ MemoSet (pkg @ ''@'' @ ver) None # rest) \<and>
     (r_error (fst (validatePkg w pkg ver loose ws)) = Some e \<longrightarrow>
        results (snd (validatePkg w pkg ver loose ws)) (pkg @ ''@'' @ ver) = Some None) \<and>
     (pkg \<noteq> [] \<and> ver \<noteq> [] \<and>
      fetchDetails w ((lib ws)\<lparr>trace := trace (lib ws) @ [MemoSet (pkg @ ''@'' @ ver) None],
          this := \<lparr>v_package = pkg, v_version = ver, v_loose = loose, v_details = None\<rparr>\<rparr>) = (Inr i, sf) \<and>
      version i \<noteq> ver \<and> results ws (pkg @ ''@'' @ version i) = None \<and>
      check w (sf\<lparr>trace := trace sf @ [MemoSet (pkg @ ''@'' @ version i) None,
          ConsoleLog ('' * Validating package: '' @ sval (name i) @ ''@'' @ version i)]\<rparr>) = (rc, sc) \<longrightarrow>
        (case rc of
           Inr t \<Rightarrow> fst (validatePkg w pkg ver loose ws) = \<lparr>r_result = Some t, r_error = None, r_info = Some i\<rparr> \<and>
                    results (snd (validatePkg w pkg ver loose ws)) (pkg @ ''@'' @ ver) = Some (Some t) \<and>
                    results (snd (validatePkg w pkg ver loose ws)) (pkg @ ''@'' @ version i) = Some (Some t)
         | Inl e \<Rightarrow> fst (validatePkg w pkg ver loose ws) = \<lparr>r_result = None, r_error = Some e, r_info = Some i\<rparr> \<and>
                    results (snd (validatePkg w pkg ver loose ws)) (pkg @ ''@'' @ ver) = Some None) \<and>
        (\<exists>t1 t2. trace (lib (snd (validatePkg w pkg ver loose ws))) =
            trace (lib ws) @ [MemoSet (pkg @ ''@'' @ ver) None] @ t1 @
            [MemoSet (pkg @ ''@'' @ version i) None,
             ConsoleLog ('' * Validating package: '' @ sval (name i) @ ''@'' @ version i)] @ t2 @
            (case rc of Inr t \<Rightarrow> [MemoSet (pkg @ ''@'' @ version i) (Some t), MemoSet (pkg @ ''@'' @ ver) (Some t)]
                      | Inl e \<Rightarrow> []) \<and>
          trace sf = trace (lib ws) @ [MemoSet (pkg @ ''@'' @ ver) None] @ t1 \<and>
          trace sc = trace sf @ [MemoSet (pkg @ ''@'' @ version i) None,
             ConsoleLog ('' * Validating package: '' @ sval (name i) @ ''@'' @ version i)] @ t2))"
proof (intro impI conjI, goal_cases)
  case 1
  then show ?case by (rule validate_marks_first)
next
  case 2
  then show ?case by (rule validatePkg_error_pending)
next
  case 3
  then show ?case using validatePkg_check_outcome[of ws pkg ver w loose i sf rc sc] by simp
next
  case 4
  then show ?case using validatePkg_check_trace[of ws pkg ver w loose i sf rc sc] by simp
qed

theorem validatePkg_marks_pending_witness:
  "(\<exists>rest. trace (lib (snd (validate 1 (one_world [] ''abc123\<newline>'' (Inr []) (Some ''da39a3ee5e6b4b0d3255bfef95601890afd80709'') (Some ''abc123''))
        ''pkg'' ''latest'' False False start))) = MemoSet ''pkg@latest'' None # rest) \<and>
   fst (validatePkg (one_world [] ''abc123\<newline>'' (Inr []) (Some ''da39a3ee5e6b4b0d3255bfef95601890afd80709'') (Some ''abc123''))
        ''pkg'' ''latest'' False start) =
     \<lparr>r_result = Some Taint_none, r_error = None,
      r_info = Some (ex_info (Some ''da39a3ee5e6b4b0d3255bfef95601890afd80709'') (Some ''abc123''))\<rparr> \<and>
   results (snd (validatePkg (one_world [] ''abc123\<newline>'' (Inr []) (Some ''da39a3ee5e6b4b0d3255bfef95601890afd80709'') (Some ''abc123''))
        ''pkg'' ''latest'' False start)) ''pkg@latest'' = Some (Some Taint_none) \<and>
   results (snd (validatePkg (one_world [] ''abc123\<newline>'' (Inr []) (Some ''da39a3ee5e6b4b0d3255bfef95601890afd80709'') (Some ''abc123''))
        ''pkg'' ''latest'' False start)) ''pkg@1.0.0'' = Some (Some Taint_none) \<and>
   (\<exists>t1 t2. trace (lib (snd (validatePkg (one_world [] ''abc123\<newline>'' (Inr []) (Some ''da39a3ee5e6b4b0d3255bfef95601890afd80709'') (Some ''abc123''))
        ''pkg'' ''latest'' False start))) =
      [MemoSet ''pkg@latest'' None] @ t1 @
      [MemoSet ''pkg@1.0.0'' None, ConsoleLog '' * Validating package: pkg@1.0.0''] @ t2 @
      [MemoSet ''pkg@1.0.0'' (Some Taint_none), MemoSet ''pkg@latest'' (Some Taint_none)]) \<and>
   results (snd (validatePkg (one_world [''npm view''] [] (Inr []) None None) ''pkg'' ''latest'' False start))
     ''pkg@latest'' = Some None"
proof -
  let ?W = "one_world [] ''abc123\<newline>'' (Inr []) (Some ''da39a3ee5e6b4b0d3255bfef95601890afd80709'') (Some ''abc123'')"
  let ?F = "one_world [''npm view''] [] (Inr []) None None"
  let ?i = "ex_info (Some ''da39a3ee5e6b4b0d3255bfef95601890afd80709'') (Some ''abc123'')"
  let ?S = "(lib start)\<lparr>trace := trace (lib start) @ [MemoSet (''pkg'' @ ''@'' @ ''latest'') None],
              this := \<lparr>v_package = ''pkg'', v_version = ''latest'', v_loose = False, v_details = None\<rparr>\<rparr>"
  define sf where "sf = snd (fetchDetails ?W ?S)"
  have "fst (fetchDetails ?W ?S) = Inr ?i"
    by (simp add: start_def fetchDetails_def set_details_def io_defs Let_def ex_defs)
  then have fd: "fetchDetails ?W ?S = (Inr ?i, sf)" by (simp add: sf_def prod_eq_iff)
  let ?SC = "sf\<lparr>trace := trace sf @ [MemoSet (''pkg'' @ ''@'' @ version ?i) None,
               ConsoleLog ('' * Validating package: '' @ sval (name ?i) @ ''@'' @ version ?i)]\<rparr>"
  define sc where "sc = snd (check ?W ?SC)"
  have "fst (check ?W ?SC) = Inr Taint_none"
    by (simp add: sf_def start_def check_defs rejected_def ex_defs string_of_nat_digit digit_def)
  then have ck: "check ?W ?SC = (Inr Taint_none, sc)" by (simp add: sc_def prod_eq_iff)
  have none: "results start (''pkg'' @ ''@'' @ ''latest'') = None"
             "results start (''pkg'' @ ''@'' @ version ?i) = None"
    by (simp_all add: start_def)
  have ver: "version ?i \<noteq> ''latest''" "''pkg'' @ ''@'' @ version ?i = ''pkg@1.0.0''"
            "'' * Validating package: '' @ sval (name ?i) @ ''@'' @ version ?i = '' * Validating package: pkg@1.0.0''"
    by (simp_all add: ex_info_def sval_def)
  have tr: "trace (lib start) = []" by (simp add: start_def loaded_def)
  have err: "r_error (fst (validatePkg ?F ''pkg'' ''latest'' False start)) =
               Some (ExecError ''Command failed: npm view'' (ExitCode 128) [])"
    by (simp add: validatePkg_def attempt_def memo_set_def new_Validator_def start_def fetchDetails_def
          io_defs Let_def ex_defs)
  from validatePkg_marks_pending [where ws = start and pkg = "''pkg''" and ver = "''latest''" and w = ?W
         and loose = False and i = ?i and sf = sf and rc = "Inr Taint_none" and sc = sc and n = 0
         and recursive = False] none fd ck ver(1)
  have A: "(\<exists>rest. trace (lib (snd (validate 1 ?W ''pkg'' ''latest'' False False start))) =
              MemoSet ''pkg@latest'' None # rest) \<and>
     fst (validatePkg ?W ''pkg'' ''latest'' False start) =
       \<lparr>r_result = Some Taint_none, r_error = None, r_info = Some ?i\<rparr> \<and>
     results (snd (validatePkg ?W ''pkg'' ''latest'' False start)) ''pkg@latest'' = Some (Some Taint_none) \<and>
     results (snd (validatePkg ?W ''pkg'' ''latest'' False start)) ''pkg@1.0.0'' = Some (Some Taint_none) \<and>
     (\<exists>t1 t2. trace (lib (snd (validatePkg ?W ''pkg'' ''latest'' False start))) =
        [MemoSet ''pkg@latest'' None] @ t1 @
        [MemoSet ''pkg@1.0.0'' None, ConsoleLog '' * Validating package: pkg@1.0.0''] @ t2 @
        [MemoSet ''pkg@1.0.0'' (Some Taint_none), MemoSet ''pkg@latest'' (Some Taint_none)])"
    unfolding ver(2,3) tr by (simp del: One_nat_def add: One_nat_def[symmetric]) blast
  from validatePkg_marks_pending [where ws = start and pkg = "''pkg''" and ver = "''latest''" and w = ?F
         and loose = False and e = "ExecError ''Command failed: npm view'' (ExitCode 128) []"] none(1) err
  have B: "results (snd (validatePkg ?F ''pkg'' ''latest'' False start)) ''pkg@latest'' = Some None"
    by simp
  from A B show ?thesis by simp
qed

text \<open>
  C8 as stated fails: when \<open>npm view\<close> fails the attempt completes with an error and the
  query key is left pending.
\<close>

theorem validatePkg_unresolved_counterexample:
  "results (snd (validatePkg (one_world [''npm view''] [] (Inr []) None None) ''pkg'' ''latest'' False start))
     ''pkg@latest'' = Some None \<and>
   r_error (fst (validatePkg (one_world [''npm view''] [] (Inr []) None None) ''pkg'' ''latest'' False start)) =
     Some (ExecError ''Command failed: npm view'' (ExitCode 128) [])"
  by (simp add: validatePkg_def attempt_def memo_set_def new_Validator_def start_def fetchDetails_def
        io_defs Let_def ex_defs)

subsection \<open>One check per resolved version\<close>










end
